theory Spec2Isabelle
  imports Complex_Main "HOL-Library.Sublist"
begin

section \<open>Units and page geometry\<close>

text \<open>
  The scripts measure lengths in points through \<^verbatim>\<open>reportlab.lib.units.inch\<close> (72.0) and
  \<^verbatim>\<open>reportlab.lib.pagesizes.letter\<close> (612.0 by 792.0). Python floats are modelled as exact
  reals. Where a result below rests on a comparison of such values (the test
  \<^verbatim>\<open>y_position > 0.2*inch\<close> of the simple call-out box), the values compared are more
  than half a point apart, far more than the rounding error of the literals involved.
\<close>

definition inch :: real where
  "inch = 72"

definition letter :: "real \<times> real" where
  "letter = (612, 792)"

section \<open>Call-out boxes: height\<close>

text \<open>
  \<^verbatim>\<open>CalloutBox._calculate_height\<close> of \<^verbatim>\<open>create_pdf_simple.py\<close>: a step function of
  \<^verbatim>\<open>len(self.content)\<close>.
\<close>

definition calculate_height_simple :: "string \<Rightarrow> real" where
  "calculate_height_simple content =
     (let char_count = length content in
      if char_count < 50 then 1.0 * inch
      else if char_count < 100 then 1.3 * inch
      else if char_count < 150 then 1.6 * inch
      else 2.0 * inch)"

text \<open>
  \<^verbatim>\<open>CalloutBox._calculate_height\<close> of \<^verbatim>\<open>create_professional_pdf.py\<close>:
  \<^verbatim>\<open>lines = len(self.content) / 50\<close> is Python's true division.
\<close>

definition calculate_height_professional :: "string \<Rightarrow> real" where
  "calculate_height_professional content =
     (let lines = real (length content) / 50 in
      max (1.5 * inch) ((0.5 + lines * 0.2) * inch))"

section \<open>Python strings\<close>

text \<open>
  A Python \<^verbatim>\<open>str\<close> is modelled as a list of characters. \<^verbatim>\<open>isspace\<close> lists the
  white-space code points below 256 that \<^verbatim>\<open>str.split()\<close> and \<^verbatim>\<open>str.strip()\<close>
  treat as separators; the results below only use that the blank is one of them.
  \<^verbatim>\<open>py_split\<close> is \<^verbatim>\<open>s.split()\<close> without arguments: runs of white space separate the
  words and no empty word is returned. \<^verbatim>\<open>py_strip\<close> is \<^verbatim>\<open>s.strip()\<close>.
\<close>

definition isspace :: "char \<Rightarrow> bool" where
  "isspace c = (of_char c \<in> {9, 10, 11, 12, 13, 28, 29, 30, 31, 32, 133, 160 :: nat})"

function py_split :: "string \<Rightarrow> string list" where
  "py_split [] = []"
| "py_split (c # cs) =
     (if isspace c then py_split cs
      else (c # takeWhile (\<lambda>x. \<not> isspace x) cs) # py_split (dropWhile (\<lambda>x. \<not> isspace x) cs))"
  by pat_completeness auto
termination
proof (relation "measure length")
  show "wf (measure length)" by simp
next
  fix c :: char and cs :: string
  show "(cs, c # cs) \<in> measure length" by simp
next
  fix c :: char and cs :: string
  have "length (dropWhile (\<lambda>x. \<not> isspace x) cs) \<le> length cs"
    by (rule length_dropWhile_le)
  then show "(dropWhile (\<lambda>x. \<not> isspace x) cs, c # cs) \<in> measure length" by simp
qed

definition py_strip :: "string \<Rightarrow> string" where
  "py_strip s = rev (dropWhile isspace (rev (dropWhile isspace s)))"

section \<open>Call-out boxes: word wrapping and drawing\<close>

text \<open>
  The wrapping loop of \<^verbatim>\<open>CalloutBox.draw\<close> in \<^verbatim>\<open>create_pdf_simple.py\<close>:
  \<^verbatim>\<open>wrap_loop\<close> is the \<^verbatim>\<open>for word in words\<close> loop with the loop variables
  \<^verbatim>\<open>current_line\<close> and \<^verbatim>\<open>lines\<close> passed along, \<^verbatim>\<open>wrap_lines\<close> adds the final
  \<^verbatim>\<open>if current_line: lines.append(current_line)\<close>.
\<close>

fun wrap_loop :: "nat \<Rightarrow> string list \<Rightarrow> string \<Rightarrow> string list \<Rightarrow> string list \<times> string" where
  "wrap_loop m [] current_line lines = (lines, current_line)"
| "wrap_loop m (word # words) current_line lines =
     (if length (current_line @ '' '' @ word) \<le> m
      then wrap_loop m words (if current_line \<noteq> [] then current_line @ '' '' @ word else word) lines
      else wrap_loop m words word (if current_line \<noteq> [] then lines @ [current_line] else lines))"

definition wrap_lines :: "string \<Rightarrow> string list" where
  "wrap_lines content =
     (let max_chars_per_line = 65;
          words = py_split content;
          (lines, current_line) = wrap_loop max_chars_per_line words [] []
      in if current_line \<noteq> [] then lines @ [current_line] else lines)"



text \<open>
  Drawing goes through a reportlab canvas, a library object outside the repository. A
  call of one of its drawing methods is recorded as a \<^verbatim>\<open>canvas_op\<close>, in call order;
  colours are the \<^verbatim>\<open>HexColor\<close> values and the named constants \<^verbatim>\<open>colors.black\<close>,
  \<^verbatim>\<open>colors.white\<close> and \<^verbatim>\<open>colors.grey\<close> the scripts pass.
\<close>

datatype color = HexColor string | Black | White | Grey

datatype canvas_op =
    SetStrokeColor color
  | SetFillColor color
  | SetLineWidth real
  | SetFont string real
  | Rect real real real real bool
  | Line real real real real
  | DrawString real real string
  | DrawRightString real real string
  | DrawCentredString real real string
  | SaveState
  | RestoreState

text \<open>
  \<^verbatim>\<open>CalloutBox\<close>: the attributes \<^verbatim>\<open>__init__\<close> sets, for the class of
  \<^verbatim>\<open>create_pdf_simple.py\<close> (\<^verbatim>\<open>CalloutBox_simple\<close>) and of
  \<^verbatim>\<open>create_professional_pdf.py\<close> (\<^verbatim>\<open>CalloutBox_professional\<close>).
  \<^verbatim>\<open>colors_get\<close> is \<^verbatim>\<open>self.colors.get(self.box_type, colors.black)\<close>.
\<close>

record callout_box =
  title :: string
  content :: string
  box_type :: string
  colors :: "string \<rightharpoonup> color"
  width :: real
  height :: real

definition CalloutBox_simple :: "string \<Rightarrow> string \<Rightarrow> string \<Rightarrow> callout_box" where
  "CalloutBox_simple ttl cnt bt =
     \<lparr> title = ttl, content = cnt, box_type = bt,
       colors = map_of
         [(''metric'', HexColor ''#CC0000''),
          (''quote'', HexColor ''#6B7C93''),
          (''success'', HexColor ''#4CAF50''),
          (''priority'', HexColor ''#FF6B35''),
          (''speed'', HexColor ''#2196F3'')],
       width = 5.5 * inch,
       height = calculate_height_simple cnt \<rparr>"

definition CalloutBox_professional :: "string \<Rightarrow> string \<Rightarrow> string \<Rightarrow> callout_box" where
  "CalloutBox_professional ttl cnt bt =
     \<lparr> title = ttl, content = cnt, box_type = bt,
       colors = map_of
         [(''metric'', HexColor ''#CC0000''),
          (''quote'', HexColor ''#6B7C93''),
          (''success'', HexColor ''#4CAF50''),
          (''priority'', HexColor ''#FF6B35'')],
       width = 5 * inch,
       height = calculate_height_professional cnt \<rparr>"

definition colors_get :: "callout_box \<Rightarrow> color" where
  "colors_get self = (case colors self (box_type self) of Some c \<Rightarrow> c | None \<Rightarrow> Black)"

text \<open>
  \<^verbatim>\<open>CalloutBox.draw\<close> of \<^verbatim>\<open>create_pdf_simple.py\<close>. \<^verbatim>\<open>draw_lines_simple\<close> is its
  final loop: a line is drawn, and \<^verbatim>\<open>y_position\<close> lowered, only while
  \<^verbatim>\<open>y_position > 0.2*inch\<close>.
\<close>

fun draw_lines_simple :: "real \<Rightarrow> real \<Rightarrow> string list \<Rightarrow> canvas_op list" where
  "draw_lines_simple w y_position [] = []"
| "draw_lines_simple w y_position (line # lines) =
     (if y_position > 0.2 * inch
      then DrawCentredString (w / 2) y_position (py_strip line)
             # draw_lines_simple w (y_position - 0.18 * inch) lines
      else draw_lines_simple w y_position lines)"

definition draw_simple :: "callout_box \<Rightarrow> canvas_op list" where
  "draw_simple self =
     (let color = colors_get self in
      [SetStrokeColor color,
       SetLineWidth 2,
       Rect 0 0 (width self) (height self) False,
       SetFillColor color,
       Rect 0 (height self - 0.35 * inch) (width self) (0.35 * inch) True,
       SetFillColor White,
       SetFont ''Helvetica-Bold'' 11,
       DrawCentredString (width self / 2) (height self - 0.23 * inch) (title self),
       SetFillColor Black,
       SetFont ''Helvetica'' 9]
      @ draw_lines_simple (width self) (height self - 0.55 * inch) (wrap_lines (content self)))"

text \<open>
  \<^verbatim>\<open>CalloutBox.draw\<close> of \<^verbatim>\<open>create_professional_pdf.py\<close>. The canvas method
  \<^verbatim>\<open>stringWidth(text, fontName, fontSize)\<close> depends on the library's font metrics and
  is a parameter. The variable \<^verbatim>\<open>line_width\<close> of the source is written and never read.
\<close>

fun draw_loop_professional ::
  "(string \<Rightarrow> string \<Rightarrow> real \<Rightarrow> real) \<Rightarrow> real \<Rightarrow> real \<Rightarrow> string list \<Rightarrow> string \<Rightarrow> real
     \<Rightarrow> canvas_op list" where
  "draw_loop_professional stringWidth w max_width [] line y_position =
     (if line \<noteq> [] then [DrawCentredString (w / 2) y_position line] else [])"
| "draw_loop_professional stringWidth w max_width (word # words) line y_position =
     (let test_line = (if line \<noteq> [] then line @ '' '' @ word else word);
          test_width = stringWidth test_line ''Helvetica'' 10
      in if test_width < max_width
         then draw_loop_professional stringWidth w max_width words test_line y_position
         else if line \<noteq> []
           then DrawCentredString (w / 2) y_position line
                  # draw_loop_professional stringWidth w max_width words word
                      (y_position - 0.2 * inch)
           else draw_loop_professional stringWidth w max_width words word y_position)"

definition draw_professional ::
  "(string \<Rightarrow> string \<Rightarrow> real \<Rightarrow> real) \<Rightarrow> callout_box \<Rightarrow> canvas_op list" where
  "draw_professional stringWidth self =
     [SetStrokeColor (colors_get self),
      SetLineWidth 2,
      Rect 0 0 (width self) (height self) False,
      SetFillColor (colors_get self),
      Rect 0 (height self - 0.35 * inch) (width self) (0.35 * inch) True,
      SetFillColor White,
      SetFont ''Helvetica-Bold'' 12,
      DrawCentredString (width self / 2) (height self - 0.25 * inch) (title self),
      SetFillColor Black,
      SetFont ''Helvetica'' 10]
     @ draw_loop_professional stringWidth (width self) (width self - 0.4 * inch)
         (py_split (content self)) [] (height self - 0.6 * inch)"

text \<open>
  What a drawing shows: \<^verbatim>\<open>centred_strings\<close> are the texts passed to
  \<^verbatim>\<open>drawCentredString\<close>, in order; the first is the title, so \<^verbatim>\<open>content_words\<close>
  are the words of the content lines drawn. \<^verbatim>\<open>line_capacity y\<close> is the number of lines
  the loop of \<^verbatim>\<open>create_pdf_simple.py\<close> can draw when it starts at height \<^verbatim>\<open>y\<close>.
\<close>

fun centred_strings :: "canvas_op list \<Rightarrow> string list" where
  "centred_strings [] = []"
| "centred_strings (DrawCentredString x y s # ops) = s # centred_strings ops"
| "centred_strings (_ # ops) = centred_strings ops"

definition content_words :: "canvas_op list \<Rightarrow> string list" where
  "content_words ops = concat (map py_split (tl (centred_strings ops)))"

definition line_capacity :: "real \<Rightarrow> nat" where
  "line_capacity y = (if y > 0.2 * inch then nat \<lceil>(y - 0.2 * inch) / (0.18 * inch)\<rceil> else 0)"

text \<open>A content string of eight words of 33 letters each.\<close>

definition long_content :: string where
  "long_content = concat (replicate 8 (replicate 33 CHR ''a'' @ '' ''))"


section \<open>Page-numbering canvases\<close>

text \<open>
  \<^verbatim>\<open>str(n)\<close> and the \<^verbatim>\<open>{n}\<close> of an f-string, for a Python integer: its decimal digits.
\<close>

function str_nat :: "nat \<Rightarrow> string" where
  "str_nat n = (if n < 10 then [''0123456789'' ! n]
                else str_nat (n div 10) @ [''0123456789'' ! (n mod 10)])"
  by pat_completeness auto
termination
  by (relation "measure id") auto

definition str_int :: "int \<Rightarrow> string" where
  "str_int i = (if i < 0 then CHR ''-'' # str_nat (nat (- i)) else str_nat (nat i))"

text \<open>
  The three \<^verbatim>\<open>NumberedCanvas\<close> classes subclass reportlab's \<^verbatim>\<open>canvas.Canvas\<close>, a
  library class outside the repository. Of a canvas the model keeps the attributes the
  classes read and write: \<^verbatim>\<open>_pageNumber\<close>, \<^verbatim>\<open>_code\<close> (the drawing operations of the
  page under construction), the pages already added to the document \<^verbatim>\<open>_doc\<close>
  (\<^verbatim>\<open>doc_pages\<close>), and the subclass's \<^verbatim>\<open>_saved_page_states\<close>. A saved state is the copy
  \<^verbatim>\<open>dict(self.__dict__)\<close>; \<^verbatim>\<open>self.__dict__.update(state)\<close> puts back the page number and
  the page's operations, and rebinds \<^verbatim>\<open>_doc\<close> and \<^verbatim>\<open>_saved_page_states\<close> to the
  objects they already are, so pages added and states saved stay.

  The library methods the subclasses call are modelled by what they do to these
  attributes: \<^verbatim>\<open>Canvas.__init__\<close> starts at page number 1 with nothing drawn;
  \<^verbatim>\<open>_startPage\<close> increments \<^verbatim>\<open>_pageNumber\<close> and starts an empty \<^verbatim>\<open>_code\<close>;
  \<^verbatim>\<open>Canvas.showPage\<close> adds the current \<^verbatim>\<open>_code\<close> to the document as one page and calls
  \<^verbatim>\<open>_startPage\<close>; \<^verbatim>\<open>Canvas.save\<close> calls \<^verbatim>\<open>self.showPage()\<close> (the subclass's
  method) when \<^verbatim>\<open>_code\<close> is not empty, and then writes the document.
\<close>

record page_state =
  st_pageNumber :: int
  st_code :: "canvas_op list"

record canvas =
  pageNumber :: int
  code :: "canvas_op list"
  doc_pages :: "canvas_op list list"
  saved_page_states :: "page_state list"

definition Canvas_init :: canvas where
  "Canvas_init = \<lparr> pageNumber = 1, code = [], doc_pages = [], saved_page_states = [] \<rparr>"

definition canvas_draw :: "canvas_op list \<Rightarrow> canvas \<Rightarrow> canvas" where
  "canvas_draw ops self = self\<lparr> code := code self @ ops \<rparr>"

definition startPage :: "canvas \<Rightarrow> canvas" where
  "startPage self = self\<lparr> pageNumber := pageNumber self + 1, code := [] \<rparr>"

definition Canvas_showPage :: "canvas \<Rightarrow> canvas" where
  "Canvas_showPage self = startPage (self\<lparr> doc_pages := doc_pages self @ [code self] \<rparr>)"

definition Canvas_save :: "(canvas \<Rightarrow> canvas) \<Rightarrow> canvas \<Rightarrow> canvas" where
  "Canvas_save showPage_method self = (if code self \<noteq> [] then showPage_method self else self)"

text \<open>
  \<^verbatim>\<open>NumberedCanvas.showPage\<close>, the same in the three classes, and the loop their
  \<^verbatim>\<open>save\<close> methods share: for each saved state, restore it, number the page
  (\<^verbatim>\<open>number_page\<close>, which differs between the classes), and emit it with
  \<^verbatim>\<open>canvas.Canvas.showPage(self)\<close>; then \<^verbatim>\<open>canvas.Canvas.save(self)\<close>.
\<close>

definition showPage :: "canvas \<Rightarrow> canvas" where
  "showPage self =
     startPage (self\<lparr> saved_page_states := saved_page_states self
        @ [\<lparr> st_pageNumber = pageNumber self, st_code = code self \<rparr>] \<rparr>)"

definition dict_update :: "canvas \<Rightarrow> page_state \<Rightarrow> canvas" where
  "dict_update self state = self\<lparr> pageNumber := st_pageNumber state, code := st_code state \<rparr>"

definition save_loop :: "(canvas \<Rightarrow> canvas) \<Rightarrow> canvas \<Rightarrow> canvas" where
  "save_loop number_page self =
     Canvas_save showPage
       (fold (\<lambda>state c. Canvas_showPage (number_page (dict_update c state)))
          (saved_page_states self) self)"

text \<open>
  \<^verbatim>\<open>create_professional_pdf.py\<close>: \<^verbatim>\<open>draw_page_number\<close> appends these operations to
  the page; \<^verbatim>\<open>now\<close> is \<^verbatim>\<open>datetime.now().strftime("%B %Y")\<close>, read from the clock.
\<close>

definition draw_page_number_professional :: "string \<Rightarrow> int \<Rightarrow> int \<Rightarrow> canvas_op list" where
  "draw_page_number_professional now page_number page_count =
     [SaveState,
      SetFont ''Helvetica'' 9,
      SetFillColor (HexColor ''#6B7C93''),
      DrawString (1 * inch) (snd letter - 0.5 * inch)
        ''Community Adaptation Program Evaluation Report'',
      DrawRightString (fst letter - 1 * inch) (snd letter - 0.5 * inch) now,
      DrawCentredString (fst letter / 2) (0.5 * inch)
        (''Page '' @ str_int page_number @ '' of '' @ str_int page_count),
      SetStrokeColor (HexColor ''#CC0000''),
      SetLineWidth 2,
      Line (1 * inch) (snd letter - 0.6 * inch) (fst letter - 1 * inch) (snd letter - 0.6 * inch),
      RestoreState]"

definition save_professional :: "string \<Rightarrow> canvas \<Rightarrow> canvas" where
  "save_professional now self =
     (let num_pages = int (length (saved_page_states self)) in
      save_loop (\<lambda>c. canvas_draw (draw_page_number_professional now (pageNumber c) num_pages) c) self)"

text \<open>
  \<^verbatim>\<open>create_pdf_simple.py\<close>: header and page number are both under
  \<^verbatim>\<open>if self._pageNumber > 1\<close>.
\<close>

definition draw_page_number_simple :: "int \<Rightarrow> int \<Rightarrow> canvas_op list" where
  "draw_page_number_simple page_number page_count =
     [SaveState]
     @ (if page_number > 1
        then [SetFont ''Helvetica'' 8,
              SetFillColor (HexColor ''#6B7C93''),
              DrawString (1 * inch) (snd letter - 0.5 * inch)
                ''Community Adaptation Program Evaluation Report'',
              DrawRightString (fst letter - 1 * inch) (snd letter - 0.5 * inch) ''September 2025'',
              SetStrokeColor (HexColor ''#CC0000''),
              SetLineWidth 1,
              Line (1 * inch) (snd letter - 0.55 * inch) (fst letter - 1 * inch)
                (snd letter - 0.55 * inch)]
        else [])
     @ (if page_number > 1
        then [SetFont ''Helvetica'' 9,
              SetFillColor (HexColor ''#6B7C93''),
              DrawCentredString (fst letter / 2) (0.5 * inch)
                (''Page '' @ str_int page_number @ '' of '' @ str_int page_count)]
        else [])
     @ [RestoreState]"

definition save_simple :: "canvas \<Rightarrow> canvas" where
  "save_simple self =
     (let num_pages = int (length (saved_page_states self)) in
      save_loop (\<lambda>c. canvas_draw (draw_page_number_simple (pageNumber c) num_pages) c) self)"

text \<open>
  \<^verbatim>\<open>create_real_cap_pdf.py\<close>: \<^verbatim>\<open>__init__\<close> resets \<^verbatim>\<open>_pageNumber\<close> to 0 after
  \<^verbatim>\<open>Canvas.__init__\<close>, and \<^verbatim>\<open>save\<close> increments it after restoring a state and before
  \<^verbatim>\<open>draw_page_number\<close>.
\<close>

definition NumberedCanvas_init_real :: canvas where
  "NumberedCanvas_init_real = Canvas_init\<lparr> saved_page_states := [], pageNumber := 0 \<rparr>"

definition draw_page_number_real :: "int \<Rightarrow> canvas_op list" where
  "draw_page_number_real page_number =
     (if page_number > 1
      then [SetFont ''Times-Roman'' 10,
            SetFillColor Black,
            DrawRightString (fst letter - 0.75 * inch) (0.5 * inch) (str_int page_number)]
      else [])"

definition save_real :: "canvas \<Rightarrow> canvas" where
  "save_real self =
     save_loop
       (\<lambda>c. let c' = c\<lparr> pageNumber := pageNumber c + 1 \<rparr>
            in canvas_draw (draw_page_number_real (pageNumber c')) c')
       self"

text \<open>
  What a document build does with a canvas before \<^verbatim>\<open>save\<close>: it draws and it calls
  \<^verbatim>\<open>showPage\<close>, in any order.
\<close>

datatype canvas_call = Draw canvas_op | ShowPage

fun call :: "canvas_call \<Rightarrow> canvas \<Rightarrow> canvas" where
  "call (Draw op) self = canvas_draw [op] self"
| "call ShowPage self = showPage self"

definition build :: "canvas_call list \<Rightarrow> canvas \<Rightarrow> canvas" where
  "build calls self = fold call calls self"

section \<open>Scripts as programs: operations, exceptions, try/except\<close>

text \<open>
  Run as a program, a script calls chart-construction functions and operations on the
  file system (and one subprocess). Each such call is an \<^verbatim>\<open>action\<close>; whether it raises is
  a matter of the environment, so the environment is a parameter: \<^verbatim>\<open>raises e a\<close> is the
  exception the action \<^verbatim>\<open>a\<close> raises, if any, and \<^verbatim>\<open>path_exists e\<close> answers
  \<^verbatim>\<open>os.path.exists\<close>. The body of a chart-construction function is not part of this
  view: \<^verbatim>\<open>Chart f\<close> is the call of the function named \<^verbatim>\<open>f\<close>. \<^verbatim>\<open>SetAttr\<close> is an
  assignment to an attribute of a library object, which raises \<^verbatim>\<open>AttributeError\<close> when
  that object is \<^verbatim>\<open>None\<close>. Calls of \<^verbatim>\<open>print\<close> are left out.

  Exceptions: \<^verbatim>\<open>Exception msg\<close> stands for the subclasses of \<^verbatim>\<open>Exception\<close> other than
  \<^verbatim>\<open>subprocess.CalledProcessError\<close>; \<^verbatim>\<open>KeyboardInterrupt\<close> and \<^verbatim>\<open>SystemExit\<close> derive from
  \<^verbatim>\<open>BaseException\<close> only, so \<^verbatim>\<open>except Exception\<close> (\<^verbatim>\<open>is_Exception\<close>) lets them pass while
  a bare \<^verbatim>\<open>except:\<close> catches them.
\<close>

datatype exn = Exception string | CalledProcessError | KeyboardInterrupt | SystemExit int

fun is_Exception :: "exn \<Rightarrow> bool" where
  "is_Exception (Exception _) = True"
| "is_Exception CalledProcessError = True"
| "is_Exception KeyboardInterrupt = False"
| "is_Exception (SystemExit _) = False"

datatype action =
    ImportModule string
  | MakeDirs string
  | Chart string
  | WriteHtml string
  | WriteImage string
  | ReadText string
  | LoadImage string
  | BuildPdf string
  | GetSize string
  | RunOpen string
  | SetAttr string

record env =
  raises :: "action \<Rightarrow> exn option"
  path_exists :: "string \<Rightarrow> bool"

text \<open>
  A run returns the actions performed, in order, and either the exception that ended
  it (\<^verbatim>\<open>Inl\<close>) or a result. \<^verbatim>\<open>io_seq\<close> runs statements in sequence and stops at the first
  exception; \<^verbatim>\<open>try_except body catches handler\<close> is
  \<^verbatim>\<open>try: body  except <catches>: handler\<close>.
\<close>

type_synonym 'a io = "action list \<times> (exn + 'a)"

definition perform :: "env \<Rightarrow> action \<Rightarrow> unit io" where
  "perform e a = (case raises e a of Some x \<Rightarrow> ([], Inl x) | None \<Rightarrow> ([a], Inr ()))"

fun io_seq :: "unit io list \<Rightarrow> unit io" where
  "io_seq [] = ([], Inr ())"
| "io_seq ((t, Inl x) # ms) = (t, Inl x)"
| "io_seq ((t, Inr _) # ms) = (case io_seq ms of (t', r) \<Rightarrow> (t @ t', r))"

definition try_except :: "unit io \<Rightarrow> (exn \<Rightarrow> bool) \<Rightarrow> unit io \<Rightarrow> unit io" where
  "try_except body catches handler =
     (case body of
        (t, Inl x) \<Rightarrow> (if catches x then (case handler of (t', r) \<Rightarrow> (t @ t', r)) else (t, Inl x))
      | (t, Inr u) \<Rightarrow> (t, Inr u))"

definition pass :: "unit io" where
  "pass = ([], Inr ())"

text \<open>
  \<^verbatim>\<open>create_cap_graphics.py\<close>, the block under \<^verbatim>\<open>if __name__ == "__main__"\<close>: seven charts,
  seven \<^verbatim>\<open>write_html\<close>, then the seven \<^verbatim>\<open>write_image\<close> inside \<^verbatim>\<open>try: ... except:\<close>.
\<close>

definition graphics_dir :: string where
  "graphics_dir = ''/Users/jefffranzen/cap-data/graphics''"

definition cap_graphics_figures :: "string list" where
  "cap_graphics_figures =
     [''roi_comparison'', ''speed_comparison'', ''volunteer_trend'', ''ia_uptake'',
      ''homes_safer'', ''cost_breakdown'', ''coalition_growth'']"

definition main_create_cap_graphics :: "env \<Rightarrow> unit io" where
  "main_create_cap_graphics e =
     io_seq
       (map (\<lambda>n. perform e (Chart (''create_'' @ n))) cap_graphics_figures
        @ map (\<lambda>n. perform e (WriteHtml (graphics_dir @ ''/'' @ n @ ''.html''))) cap_graphics_figures
        @ [try_except
             (io_seq (map (\<lambda>n. perform e (WriteImage (graphics_dir @ ''/'' @ n @ ''.png'')))
                cap_graphics_figures))
             (\<lambda>x. True) pass])"

text \<open>
  \<^verbatim>\<open>fortune500_graphics.py\<close>: \<^verbatim>\<open>export_all_visualizations\<close> builds the dictionary
  \<^verbatim>\<open>charts\<close> (file name, chart function), writes the HTML files, writes the PNG files
  inside \<^verbatim>\<open>try: ... except Exception\<close>, and calls \<^verbatim>\<open>create_executive_dashboard\<close>, whose own
  PNG export is inside \<^verbatim>\<open>try: ... except: pass\<close>; \<^verbatim>\<open>main\<close> wraps it all in
  \<^verbatim>\<open>try: ... except Exception\<close>.
\<close>

definition fortune500_charts :: "(string \<times> string) list" where
  "fortune500_charts =
     [(''roi_disaster_type'', ''create_roi_by_disaster_type''),
       (''roi_partner_type'', ''create_roi_by_partner_type''),
       (''cost_containment'', ''create_cost_containment_donut''),
       (''ia_uptake'', ''create_ia_uptake_comparison''),
       (''speed_advantage'', ''create_speed_advantage_chart''),
       (''volunteer_trends'', ''create_volunteer_engagement_trends''),
       (''homes_safer'', ''create_homes_safer_impact''),
       (''stakeholder_sentiment'', ''create_stakeholder_sentiment_radar'')]"

definition create_executive_dashboard :: "env \<Rightarrow> unit io" where
  "create_executive_dashboard e =
     io_seq
       [perform e (WriteHtml (graphics_dir @ ''/executive_dashboard.html'')),
        try_except (perform e (WriteImage (graphics_dir @ ''/executive_dashboard.png'')))
          (\<lambda>x. True) pass]"

definition export_all_visualizations :: "env \<Rightarrow> unit io" where
  "export_all_visualizations e =
     io_seq
       ([perform e (MakeDirs graphics_dir)]
        @ map (\<lambda>(name, f). perform e (Chart f)) fortune500_charts
        @ map (\<lambda>(name, f). perform e (WriteHtml (graphics_dir @ ''/'' @ name @ ''.html'')))
            fortune500_charts
        @ [try_except
             (io_seq (map (\<lambda>(name, f). perform e (WriteImage (graphics_dir @ ''/'' @ name @ ''.png'')))
                fortune500_charts))
             is_Exception pass,
           create_executive_dashboard e])"

definition main_fortune500_graphics :: "env \<Rightarrow> unit io" where
  "main_fortune500_graphics e = try_except (export_all_visualizations e) is_Exception pass"

text \<open>
  \<^verbatim>\<open>Python/create_20_visualizations.py\<close>: each chart function (paired here with the name
  it passes to \<^verbatim>\<open>save_figure\<close>) builds its chart and returns \<^verbatim>\<open>save_figure(fig, name)\<close>,
  which writes the HTML file. The module creates its output directory at import.
\<close>

definition visualizations_20 :: "(string \<times> string) list" where
  "visualizations_20 =
     [(''create_roi_by_disaster'', ''roi_by_disaster''),
       (''create_roi_by_partner'', ''roi_partner_waterfall''),
       (''create_cost_containment_donut'', ''cost_containment_donut''),
       (''create_ia_uptake_comparison'', ''ia_uptake_comparison''),
       (''create_speed_advantage'', ''speed_advantage''),
       (''create_volunteer_trends'', ''volunteer_trends''),
       (''create_homes_safer_impact'', ''homes_safer_impact''),
       (''create_stakeholder_sentiment'', ''stakeholder_sentiment''),
       (''create_meal_cost_comparison'', ''meal_cost_comparison''),
       (''create_response_timeline'', ''response_timeline''),
       (''create_geographic_heatmap'', ''geographic_impact''),
       (''create_quarterly_trends'', ''quarterly_trends''),
       (''create_partner_distribution'', ''partner_distribution''),
       (''create_failures_prevented'', ''failures_prevented''),
       (''create_youth_preparedness'', ''youth_preparedness''),
       (''create_francine_breakdown'', ''francine_breakdown''),
       (''create_asset_utilization'', ''asset_utilization''),
       (''create_coalition_growth'', ''coalition_growth''),
       (''create_disaster_efficiency'', ''disaster_efficiency''),
       (''create_kpi_dashboard'', ''kpi_dashboard''),
       (''create_risk_timeline'', ''risk_timeline''),
       (''create_cultural_metrics'', ''cultural_metrics''),
       (''create_investment_return'', ''investment_return''),
       (''create_executive_scorecard'', ''executive_scorecard'')]"

definition save_figure_20 :: "env \<Rightarrow> string \<Rightarrow> unit io" where
  "save_figure_20 e name =
     perform e (WriteHtml (''/Users/jefffranzen/cap-data/visualizations/'' @ name @ ''.html''))"

definition create_20 :: "env \<Rightarrow> string \<Rightarrow> string \<Rightarrow> unit io" where
  "create_20 e f name = io_seq [perform e (Chart f), save_figure_20 e name]"

definition main_create_20_visualizations :: "env \<Rightarrow> unit io" where
  "main_create_20_visualizations e =
     io_seq
       (perform e (MakeDirs ''/Users/jefffranzen/cap-data/visualizations'')
        # map (\<lambda>(f, name). create_20 e f name) visualizations_20)"

text \<open>
  \<^verbatim>\<open>convert_to_images.py\<close>: first assigns \<^verbatim>\<open>pio.kaleido.scope.mathjax = None\<close>, outside
  every \<^verbatim>\<open>try\<close> (where kaleido is missing, \<^verbatim>\<open>pio.kaleido.scope\<close> is \<^verbatim>\<open>None\<close> and the
  assignment raises); then imports \<^verbatim>\<open>create_20_visualizations\<close>, which creates its
  output directory at import, creates the image directory, and, for each entry of
  \<^verbatim>\<open>viz_functions\<close> (image name, chart function; the third component is the name the
  function saves its HTML under), runs the chart function and writes a PNG and a JPG,
  all inside \<^verbatim>\<open>try: ... except Exception\<close>. The counters \<^verbatim>\<open>successful\<close> and \<^verbatim>\<open>failed\<close>
  are left out.
\<close>

definition viz_functions :: "(string \<times> string \<times> string) list" where
  "viz_functions =
     [(''roi_by_disaster'', ''create_roi_by_disaster'', ''roi_by_disaster''),
       (''roi_by_partner'', ''create_roi_by_partner'', ''roi_partner_waterfall''),
       (''cost_containment_donut'', ''create_cost_containment_donut'', ''cost_containment_donut''),
       (''ia_uptake_comparison'', ''create_ia_uptake_comparison'', ''ia_uptake_comparison''),
       (''speed_advantage'', ''create_speed_advantage'', ''speed_advantage''),
       (''volunteer_trends'', ''create_volunteer_trends'', ''volunteer_trends''),
       (''homes_safer_impact'', ''create_homes_safer_impact'', ''homes_safer_impact''),
       (''stakeholder_sentiment'', ''create_stakeholder_sentiment'', ''stakeholder_sentiment''),
       (''meal_cost_comparison'', ''create_meal_cost_comparison'', ''meal_cost_comparison''),
       (''response_timeline'', ''create_response_timeline'', ''response_timeline''),
       (''geographic_impact'', ''create_geographic_heatmap'', ''geographic_impact''),
       (''quarterly_trends'', ''create_quarterly_trends'', ''quarterly_trends''),
       (''partner_distribution'', ''create_partner_distribution'', ''partner_distribution''),
       (''failures_prevented'', ''create_failures_prevented'', ''failures_prevented''),
       (''youth_preparedness'', ''create_youth_preparedness'', ''youth_preparedness''),
       (''francine_breakdown'', ''create_francine_breakdown'', ''francine_breakdown''),
       (''asset_utilization'', ''create_asset_utilization'', ''asset_utilization''),
       (''coalition_growth'', ''create_coalition_growth'', ''coalition_growth''),
       (''disaster_efficiency'', ''create_disaster_efficiency'', ''disaster_efficiency''),
       (''kpi_dashboard'', ''create_kpi_dashboard'', ''kpi_dashboard''),
       (''risk_timeline'', ''create_risk_timeline'', ''risk_timeline''),
       (''cultural_metrics'', ''create_cultural_metrics'', ''cultural_metrics''),
       (''investment_return'', ''create_investment_return'', ''investment_return''),
       (''executive_scorecard'', ''create_executive_scorecard'', ''executive_scorecard'')]"

definition convert_one :: "env \<Rightarrow> string \<times> string \<times> string \<Rightarrow> unit io" where
  "convert_one e = (\<lambda>(name, f, saved_name).
     try_except
       (io_seq
          [create_20 e f saved_name,
           perform e (WriteImage (''/Users/jefffranzen/cap-data/images/'' @ name @ ''.png'')),
           perform e (WriteImage (''/Users/jefffranzen/cap-data/images/'' @ name @ ''.jpg''))])
       is_Exception pass)"

definition main_convert_to_images :: "env \<Rightarrow> unit io" where
  "main_convert_to_images e =
     io_seq
       ([perform e (SetAttr ''pio.kaleido.scope.mathjax''),
         perform e (ImportModule ''create_20_visualizations''),
         perform e (MakeDirs ''/Users/jefffranzen/cap-data/visualizations''),
         perform e (MakeDirs ''/Users/jefffranzen/cap-data/images'')]
        @ map (convert_one e) viz_functions)"

text \<open>
  \<^verbatim>\<open>create_cool_visualizations_fixed.py\<close> and \<^verbatim>\<open>Python/create_cool_visualizations.py\<close>:
  \<^verbatim>\<open>save_figure\<close> writes the HTML file and then the PNG inside \<^verbatim>\<open>try: ... except: pass\<close>.
\<close>

definition save_figure_cool :: "env \<Rightarrow> string \<Rightarrow> unit io" where
  "save_figure_cool e name =
     io_seq
       [perform e (WriteHtml (''/Users/jefffranzen/cap-data/cool_visualizations/'' @ name @ ''.html'')),
        try_except
          (perform e (WriteImage (''/Users/jefffranzen/cap-data/cool_visualizations/'' @ name @ ''.png'')))
          (\<lambda>x. True) pass]"

definition create_cool :: "env \<Rightarrow> string \<Rightarrow> string \<Rightarrow> unit io" where
  "create_cool e f name = io_seq [perform e (Chart f), save_figure_cool e name]"

definition visualizations_cool_fixed :: "(string \<times> string) list" where
  "visualizations_cool_fixed =
     [(''create_3d_scatter'', ''3d_scatter_performance''),
       (''create_animated_scatter'', ''animated_scatter_evolution''),
       (''create_sunburst'', ''sunburst_hierarchy''),
       (''create_correlation_matrix'', ''correlation_matrix''),
       (''create_bubble_map'', ''bubble_map_impact''),
       (''create_parallel'', ''parallel_coordinates''),
       (''create_violin_scatter'', ''violin_scatter_distribution''),
       (''create_sankey'', ''sankey_flow''),
       (''create_scatter_trend'', ''scatter_trend_roi''),
       (''create_heatmap_matrix'', ''heatmap_matrix''),
       (''create_treemap'', ''treemap_impact''),
       (''create_funnel'', ''funnel_pipeline''),
       (''create_polar_scatter'', ''polar_scatter_360''),
       (''create_dual_axis'', ''dual_axis_analysis''),
       (''create_contour'', ''contour_density''),
       (''create_radar_comparison'', ''radar_comparison''),
       (''create_network'', ''network_partners''),
       (''create_box_plots'', ''box_plots_stats''),
       (''create_gantt'', ''gantt_timeline''),
       (''create_dashboard'', ''executive_dashboard'')]"

definition main_create_cool_visualizations_fixed :: "env \<Rightarrow> unit io" where
  "main_create_cool_visualizations_fixed e =
     io_seq
       (perform e (MakeDirs ''/Users/jefffranzen/cap-data/cool_visualizations'')
        # map (\<lambda>(f, name). create_cool e f name) visualizations_cool_fixed)"

definition visualizations_cool :: "(string \<times> string) list" where
  "visualizations_cool =
     [(''create_3d_performance'', ''3d_performance_matrix''),
       (''create_animated_bubbles'', ''animated_bubble_evolution''),
       (''create_sunburst_breakdown'', ''sunburst_cost_hierarchy''),
       (''create_scatter_matrix'', ''scatter_matrix_analysis''),
       (''create_advanced_heatmap'', ''advanced_heatmap''),
       (''create_parallel_coordinates'', ''parallel_coordinates''),
       (''create_violin_distribution'', ''violin_distribution''),
       (''create_sankey_flow'', ''sankey_resource_flow''),
       (''create_scatter_marginal'', ''scatter_marginal_analysis''),
       (''create_treemap_impact'', ''treemap_impact''),
       (''create_funnel_pipeline'', ''funnel_pipeline''),
       (''create_network_graph'', ''network_graph''),
       (''create_line_race'', ''growth_race''),
       (''create_polar_bar'', ''polar_360_view''),
       (''create_density_contour'', ''density_clusters''),
       (''create_surface_landscape'', ''surface_landscape''),
       (''create_ridgeline'', ''ridgeline_evolution''),
       (''create_spider_comparison'', ''spider_comparison''),
       (''create_box_jitter'', ''box_jitter_stats''),
       (''create_executive_dashboard'', ''executive_dashboard_complete'')]"

definition main_create_cool_visualizations :: "env \<Rightarrow> unit io" where
  "main_create_cool_visualizations e =
     io_seq
       (perform e (MakeDirs ''/Users/jefffranzen/cap-data/cool_visualizations'')
        # map (\<lambda>(f, name). create_cool e f name) visualizations_cool)"

text \<open>
  \<^verbatim>\<open>create_fortune500_pdf.py\<close>. A story is a list of flowables; a paragraph carries its
  text and the key of its style. \<^verbatim>\<open>add_visualization\<close> appends to the story; the image
  constructor \<^verbatim>\<open>Image(viz_path, ...)\<close> is the action \<^verbatim>\<open>LoadImage\<close>, inside
  \<^verbatim>\<open>try: ... except Exception\<close>.
\<close>

datatype flowable =
    Paragraph string string
  | Image string real real string
  | Spacer real real
  | PageBreak

definition add_visualization ::
  "env \<Rightarrow> flowable list \<Rightarrow> string \<Rightarrow> string \<Rightarrow> string \<Rightarrow> real \<Rightarrow> real \<Rightarrow> flowable list io" where
  "add_visualization e story viz_path ttl description w h =
     (let story1 = story @ [Paragraph ttl ''SubsectionHeader''] in
      case
        (if path_exists e viz_path
         then (case raises e (LoadImage viz_path) of
                 None \<Rightarrow> ([LoadImage viz_path], Inr (story1 @ [Image viz_path w h ''CENTER'']))
               | Some x \<Rightarrow>
                   if is_Exception x
                   then ([], Inr (story1
                           @ [Paragraph (''[Visualization: '' @ ttl @ '']'') ''BodyText'']))
                   else ([], Inl x))
         else ([], Inr (story1
                 @ [Paragraph (''[Visualization: '' @ ttl @ '' - File not found: '' @ viz_path @ '']'')
                      ''BodyText''])))
      of
        (t, Inl x) \<Rightarrow> (t, Inl x)
      | (t, Inr story2) \<Rightarrow>
          (t, Inr ((if description \<noteq> []
                    then story2 @ [Spacer 1 6, Paragraph description ''BodyText'']
                    else story2)
                   @ [Spacer 1 12])))"

text \<open>
  \<^verbatim>\<open>create_pdf_report\<close>: the section builders call \<^verbatim>\<open>add_visualization\<close> nine times, in
  this order, with the default width and height; then \<^verbatim>\<open>doc.build\<close> writes the PDF and
  \<^verbatim>\<open>os.path.getsize\<close> reads its size. The text flowables the builders add in between do
  not touch the file system and are left out of the story here.
\<close>

definition report_visualizations :: "(string \<times> string \<times> string) list" where
  "report_visualizations =
     [(''/Users/jefffranzen/cap-data/graphics/executive_dashboard.png'',
       ''CAP Performance Dashboard'',
       (''Comprehensive overview of CAP'' @ [CHR 0x27] @ ''s impact across all key performance indicators, demonstrating consistent value delivery across multiple metrics.'')),
      (''/Users/jefffranzen/cap-data/graphics/ia_uptake.png'',
       ''Immediate Assistance Uptake Rates'',
       ''CAP jurisdictions consistently demonstrate higher IA completion rates, with Terrebonne Parish achieving 93% completion during Hurricane Francine compared to 67% overall.''),
      (''/Users/jefffranzen/cap-data/graphics/speed_advantage.png'',
       ''Response Speed Advantage'',
       ''CAP partners consistently deliver first services 1-4 days faster than traditional Red Cross responses across multiple disaster operations.''),
      (''/Users/jefffranzen/cap-data/graphics/cost_containment.png'',
       ''Cost Containment Analysis'',
       ''Total documented cost containment of $1.6M+ across multiple DROs, demonstrating clear financial value to Red Cross operations.''),
      (''/Users/jefffranzen/cap-data/graphics/roi_partner_type.png'',
       ''Return on Investment by Partner Type'',
       ''Resilience Hub and Community Gateway partners show the highest ROI, with rates exceeding 30% for strategic investments.''),
      (''/Users/jefffranzen/cap-data/graphics/roi_disaster_type.png'',
       ''ROI Analysis by Disaster Type'',
       ''Hurricane responses demonstrate the highest ROI at 37.3%, followed by flooding events at 25.5%.''),
      (''/Users/jefffranzen/cap-data/graphics/volunteer_trends.png'',
       ''Volunteer Engagement Growth'',
       ''CAP jurisdictions show 35.92% increase in volunteer engagement compared to 16.05% national average, demonstrating enhanced community mobilization.''),
      (''/Users/jefffranzen/cap-data/graphics/homes_safer.png'',
       ''Homes Made Safer Initiative Impact'',
       ''CAP jurisdictions achieved 66.24% increase in homes made safer compared to 14.02% national increase, showing enhanced preparedness outcomes.''),
      (''/Users/jefffranzen/cap-data/graphics/stakeholder_sentiment.png'',
       ''Stakeholder Sentiment Analysis'',
       ''Overwhelmingly positive sentiment from community partners and stakeholders, with 97% reporting improved disaster service capability.'')]"

fun add_visualizations ::
  "env \<Rightarrow> flowable list \<Rightarrow> (string \<times> string \<times> string) list \<Rightarrow> flowable list io" where
  "add_visualizations e story [] = ([], Inr story)"
| "add_visualizations e story ((viz_path, ttl, description) # rest) =
     (case add_visualization e story viz_path ttl description (6 * inch) (4 * inch) of
        (t, Inl x) \<Rightarrow> (t, Inl x)
      | (t, Inr story') \<Rightarrow>
          (case add_visualizations e story' rest of (t', r) \<Rightarrow> (t @ t', r)))"

definition fortune500_output_path :: string where
  "fortune500_output_path = ''/Users/jefffranzen/cap-data/CAP_Evaluation_Report_Fortune500.pdf''"

definition create_pdf_report :: "env \<Rightarrow> string io" where
  "create_pdf_report e =
     (case add_visualizations e [] report_visualizations of
        (t, Inl x) \<Rightarrow> (t, Inl x)
      | (t, Inr story) \<Rightarrow>
          (case io_seq [perform e (BuildPdf fortune500_output_path),
                        perform e (GetSize fortune500_output_path)] of
             (t', Inl x) \<Rightarrow> (t @ t', Inl x)
           | (t', Inr _) \<Rightarrow> (t @ t', Inr fortune500_output_path)))"

text \<open>
  The block under \<^verbatim>\<open>if __name__ == "__main__"\<close>: \<^verbatim>\<open>report\<close> is the run of
  \<^verbatim>\<open>create_pdf_report()\<close>; the \<^verbatim>\<open>open\<close> subprocess is inside
  \<^verbatim>\<open>try: ... except subprocess.CalledProcessError\<close>, and everything inside
  \<^verbatim>\<open>try: ... except Exception: ... sys.exit(1)\<close>.
\<close>

definition main_fortune500_pdf :: "env \<Rightarrow> string io \<Rightarrow> unit io" where
  "main_fortune500_pdf e report =
     try_except
       (case report of
          (t, Inl x) \<Rightarrow> (t, Inl x)
        | (t, Inr pdf_path) \<Rightarrow>
            io_seq [(t, Inr ()),
                    try_except (perform e (RunOpen pdf_path)) (\<lambda>x. x = CalledProcessError) pass])
       is_Exception
       ([], Inl (SystemExit 1))"

definition main_create_fortune500_pdf :: "env \<Rightarrow> unit io" where
  "main_create_fortune500_pdf e = main_fortune500_pdf e (create_pdf_report e)"

text \<open>
  \<^verbatim>\<open>create_pdf_simple.py\<close>: \<^verbatim>\<open>create_professional_pdf\<close> reads the report text and builds
  the PDF; the main block wraps it in \<^verbatim>\<open>try: ... except Exception\<close>.
\<close>

definition report_text_path :: string where
  "report_text_path = ''/Users/jefffranzen/cap-data/Updated_CAP_Report_September_30_2025_COMPLETE.txt''"

definition create_professional_pdf_simple :: "env \<Rightarrow> unit io" where
  "create_professional_pdf_simple e =
     io_seq
       [perform e (ReadText report_text_path),
        perform e (BuildPdf ''/Users/jefffranzen/cap-data/CAP_Evaluation_Report_Professional.pdf'')]"

definition main_create_pdf_simple :: "env \<Rightarrow> unit io" where
  "main_create_pdf_simple e = try_except (create_professional_pdf_simple e) is_Exception pass"

text \<open>
  \<^verbatim>\<open>create_professional_pdf.py\<close>: three times, a chart function of
  \<^verbatim>\<open>create_cap_graphics\<close> is called, the figure written with \<^verbatim>\<open>pio.write_image\<close> and, if
  the file exists, embedded with \<^verbatim>\<open>Image\<close>; no \<^verbatim>\<open>try\<close>.
\<close>

definition figure_image :: "env \<Rightarrow> string \<Rightarrow> string \<Rightarrow> unit io" where
  "figure_image e f img_path =
     io_seq
       ([perform e (Chart f), perform e (WriteImage img_path)]
        @ (if path_exists e img_path then [perform e (LoadImage img_path)] else []))"

definition main_create_professional_pdf :: "env \<Rightarrow> unit io" where
  "main_create_professional_pdf e =
     io_seq
       [perform e (MakeDirs ''/Users/jefffranzen/cap-data/output''),
        perform e (ReadText report_text_path),
        perform e (ImportModule ''create_cap_graphics''),
        figure_image e ''create_roi_comparison'' ''/Users/jefffranzen/cap-data/output/roi_comparison.png'',
        figure_image e ''create_speed_comparison''
          ''/Users/jefffranzen/cap-data/output/speed_comparison.png'',
        figure_image e ''create_cost_breakdown'' ''/Users/jefffranzen/cap-data/output/cost_breakdown.png'',
        perform e
          (BuildPdf ''/Users/jefffranzen/cap-data/output/CAP_Evaluation_Report_Professional.pdf'')]"

text \<open>
  \<^verbatim>\<open>create_real_cap_pdf.py\<close>: reads the report text and builds the PDF; no \<^verbatim>\<open>try\<close>.
\<close>

definition main_create_real_cap_pdf :: "env \<Rightarrow> unit io" where
  "main_create_real_cap_pdf e =
     io_seq
       [perform e (ReadText ''/Users/jefffranzen/cap-data/FINAL_CAP_Report_With_Updates.txt''),
        perform e (BuildPdf ''/Users/jefffranzen/cap-data/CAP_Final_Report_September_2025.pdf'')]"

text \<open>
  Calls of chart-construction functions, and actions that write an output file (HTML,
  PNG or JPG image, PDF).
\<close>

fun is_Chart :: "action \<Rightarrow> bool" where
  "is_Chart (Chart _) = True"
| "is_Chart _ = False"

fun is_output :: "action \<Rightarrow> bool" where
  "is_output (WriteHtml _) = True"
| "is_output (WriteImage _) = True"
| "is_output (BuildPdf _) = True"
| "is_output _ = False"

text \<open>
  Environments: nothing fails; building the PDF fails; every image fails to load; static
  image export fails (no kaleido); writing HTML fails; the \<^verbatim>\<open>open\<close> command fails;
  nothing fails and no file exists; the kaleido scope is missing.
\<close>

definition env_ok :: env where
  "env_ok = \<lparr> raises = (\<lambda>a. None), path_exists = (\<lambda>p. True) \<rparr>"

definition env_pdf_build_fails :: env where
  "env_pdf_build_fails =
     \<lparr> raises = (\<lambda>a. if a = BuildPdf fortune500_output_path
                       then Some (Exception ''Permission denied'') else None),
       path_exists = (\<lambda>p. False) \<rparr>"

definition env_image_broken :: env where
  "env_image_broken =
     \<lparr> raises = (\<lambda>a. case a of LoadImage p \<Rightarrow> Some (Exception ''cannot identify image file'')
                        | _ \<Rightarrow> None),
       path_exists = (\<lambda>p. True) \<rparr>"

definition env_no_kaleido :: env where
  "env_no_kaleido =
     \<lparr> raises = (\<lambda>a. case a of WriteImage p \<Rightarrow> Some (Exception ''kaleido is not installed'')
                        | _ \<Rightarrow> None),
       path_exists = (\<lambda>p. True) \<rparr>"

definition env_html_fails :: env where
  "env_html_fails =
     \<lparr> raises = (\<lambda>a. case a of WriteHtml p \<Rightarrow> Some (Exception ''No such file or directory'')
                        | _ \<Rightarrow> None),
       path_exists = (\<lambda>p. True) \<rparr>"

definition env_open_fails :: env where
  "env_open_fails =
     \<lparr> raises = (\<lambda>a. case a of RunOpen p \<Rightarrow> Some CalledProcessError | _ \<Rightarrow> None),
       path_exists = (\<lambda>p. True) \<rparr>"

definition env_no_files :: env where
  "env_no_files = \<lparr> raises = (\<lambda>a. None), path_exists = (\<lambda>p. False) \<rparr>"

definition env_no_scope :: env where
  "env_no_scope =
     \<lparr> raises = (\<lambda>a. case a of SetAttr p \<Rightarrow> Some (Exception ''AttributeError'')
                        | WriteImage p \<Rightarrow> Some (Exception ''kaleido is not installed'')
                        | _ \<Rightarrow> None),
       path_exists = (\<lambda>p. True) \<rparr>"

text \<open>
  The actions outside any \<^verbatim>\<open>try\<close> in \<^verbatim>\<open>create_cap_graphics.py\<close> and in
  \<^verbatim>\<open>export_all_visualizations\<close> before the executive dashboard, and the PNG exports of
  the latter.
\<close>

definition cap_graphics_required :: "action list" where
  "cap_graphics_required =
     map (\<lambda>n. Chart (''create_'' @ n)) cap_graphics_figures
     @ map (\<lambda>n. WriteHtml (graphics_dir @ ''/'' @ n @ ''.html'')) cap_graphics_figures"

definition export_required :: "action list" where
  "export_required =
     MakeDirs graphics_dir
     # map (\<lambda>(name, f). Chart f) fortune500_charts
     @ map (\<lambda>(name, f). WriteHtml (graphics_dir @ ''/'' @ name @ ''.html'')) fortune500_charts"

definition export_png :: "action list" where
  "export_png =
     map (\<lambda>(name, f). WriteImage (graphics_dir @ ''/'' @ name @ ''.png'')) fortune500_charts"

text \<open>
  The PNG exports of \<^verbatim>\<open>create_cap_graphics.py\<close>, and the steps of one pass of the loop of
  \<^verbatim>\<open>convert_to_images.py\<close>: the chart function (which writes its HTML file through
  \<^verbatim>\<open>save_figure\<close>), then the PNG and the JPG.
\<close>

definition cap_graphics_png :: "action list" where
  "cap_graphics_png =
     map (\<lambda>n. WriteImage (graphics_dir @ ''/'' @ n @ ''.png'')) cap_graphics_figures"

definition convert_steps :: "string \<times> string \<times> string \<Rightarrow> action list" where
  "convert_steps = (\<lambda>(name, f, saved_name).
     [Chart f,
      WriteHtml (''/Users/jefffranzen/cap-data/visualizations/'' @ saved_name @ ''.html''),
      WriteImage (''/Users/jefffranzen/cap-data/images/'' @ name @ ''.png''),
      WriteImage (''/Users/jefffranzen/cap-data/images/'' @ name @ ''.jpg'')])"

section \<open>Charts\<close>

text \<open>
  A chart function builds a Plotly figure by calls into the library: \<^verbatim>\<open>go.Figure\<close> with
  its traces, then \<^verbatim>\<open>update_traces\<close>, \<^verbatim>\<open>update_layout\<close>, \<^verbatim>\<open>update_xaxes\<close>,
  \<^verbatim>\<open>update_yaxes\<close> and \<^verbatim>\<open>add_annotation\<close>. A figure is modelled as
  that sequence of calls with their keyword arguments, which are trees of numbers,
  strings, booleans, lists and dictionaries; a string passed where Plotly expects a
  colour is tagged \<^verbatim>\<open>Color\<close>. \<^verbatim>\<open>figure_colors\<close> lists the colour strings the calls pass
  to the library. A colour the library computes itself is not among them: where a
  marker's \<^verbatim>\<open>color\<close> is a list of numbers, Plotly maps each number to a colour along
  the \<^verbatim>\<open>colorscale\<close>, between the colours given there.
\<close>

datatype pval =
    Num real
  | Str string
  | Color string
  | Bool bool
  | Seq "pval list"
  | Dict "(string \<times> pval) list"

datatype fig_call =
    Figure "pval list"
  | update_traces pval
  | update_layout pval
  | update_xaxes pval
  | update_yaxes pval
  | add_annotation pval

type_synonym figure = "fig_call list"

definition go_Bar :: "(string \<times> pval) list \<Rightarrow> pval" where
  "go_Bar props = Dict ((''type'', Str ''bar'') # props)"

definition go_Pie :: "(string \<times> pval) list \<Rightarrow> pval" where
  "go_Pie props = Dict ((''type'', Str ''pie'') # props)"

definition go_Scatter3d :: "(string \<times> pval) list \<Rightarrow> pval" where
  "go_Scatter3d props = Dict ((''type'', Str ''scatter3d'') # props)"

fun pval_colors :: "pval \<Rightarrow> string list" where
  "pval_colors (Color c) = [c]"
| "pval_colors (Seq ps) = concat (map pval_colors ps)"
| "pval_colors (Dict kvs) = concat (map (\<lambda>kv. pval_colors (snd kv)) kvs)"
| "pval_colors _ = []"

fun call_colors :: "fig_call \<Rightarrow> string list" where
  "call_colors (Figure traces) = concat (map pval_colors traces)"
| "call_colors (update_traces p) = pval_colors p"
| "call_colors (update_layout p) = pval_colors p"
| "call_colors (update_xaxes p) = pval_colors p"
| "call_colors (update_yaxes p) = pval_colors p"
| "call_colors (add_annotation p) = pval_colors p"

definition figure_colors :: "figure \<Rightarrow> string list" where
  "figure_colors fig = concat (map call_colors fig)"

text \<open>
  The colour tables of the scripts. \<^verbatim>\<open>cap_colors\<close> is the dictionary of
  \<^verbatim>\<open>create_cap_graphics.py\<close> and \<^verbatim>\<open>ARC_COLORS\<close> that of \<^verbatim>\<open>fortune500_graphics.py\<close>;
  \<^verbatim>\<open>lookup d k\<close> is \<^verbatim>\<open>d[k]\<close> (every key the scripts look up is a literal key of the
  table; a missing key is modelled by the empty string). The constants \<^verbatim>\<open>ARC_RED\<close>,
  \<^verbatim>\<open>ARC_GRAY\<close>, \<^verbatim>\<open>ARC_DARK_GRAY\<close> and \<^verbatim>\<open>ARC_LIGHT_GRAY\<close> are defined with these values by
  \<^verbatim>\<open>convert_to_images.py\<close>, \<^verbatim>\<open>create_cool_visualizations_fixed.py\<close>,
  \<^verbatim>\<open>Python/create_20_visualizations.py\<close> and \<^verbatim>\<open>Python/create_cool_visualizations.py\<close>; the
  last two also define \<^verbatim>\<open>ARC_BLACK\<close> and \<^verbatim>\<open>ARC_WHITE\<close>.
\<close>

definition lookup :: "(string \<times> string) list \<Rightarrow> string \<Rightarrow> string" where
  "lookup d k = (case map_of d k of Some v \<Rightarrow> v | None \<Rightarrow> [])"

definition cap_colors :: "(string \<times> string) list" where
  "cap_colors =
     [(''primary'', ''#ED1B2E''),
      (''secondary'', ''#6B7280''),
      (''accent'', ''#1E40AF''),
      (''success'', ''#059669''),
      (''warning'', ''#D97706'')]"

definition ARC_COLORS :: "(string \<times> string) list" where
  "ARC_COLORS =
     [(''primary'', ''#CC0000''),
      (''secondary'', ''#6B7C93''),
      (''background'', ''#FFFFFF''),
      (''text'', ''#000000''),
      (''accent_light'', ''#E6F3FF''),
      (''accent_dark'', ''#2C5282''),
      (''success'', ''#059669''),
      (''warning'', ''#D97706'')]"

definition ARC_RED :: string where "ARC_RED = ''#CC0000''"
definition ARC_GRAY :: string where "ARC_GRAY = ''#6B7C93''"
definition ARC_DARK_GRAY :: string where "ARC_DARK_GRAY = ''#4A5568''"
definition ARC_LIGHT_GRAY :: string where "ARC_LIGHT_GRAY = ''#E2E8F0''"
definition ARC_BLACK :: string where "ARC_BLACK = ''#000000''"
definition ARC_WHITE :: string where "ARC_WHITE = ''#FFFFFF''"

definition convert_to_images_colors :: "string list" where
  "convert_to_images_colors = [ARC_RED, ARC_GRAY, ARC_DARK_GRAY, ARC_LIGHT_GRAY]"

definition create_cool_visualizations_fixed_colors :: "string list" where
  "create_cool_visualizations_fixed_colors = [ARC_RED, ARC_GRAY, ARC_DARK_GRAY, ARC_LIGHT_GRAY]"

definition create_20_visualizations_colors :: "string list" where
  "create_20_visualizations_colors =
     [ARC_RED, ARC_GRAY, ARC_DARK_GRAY, ARC_LIGHT_GRAY, ARC_BLACK, ARC_WHITE]"

definition FONT_FAMILY :: string where "FONT_FAMILY = ''Arial, Helvetica, sans-serif''"
definition TITLE_FONT_SIZE :: real where "TITLE_FONT_SIZE = 20"
definition AXIS_FONT_SIZE :: real where "AXIS_FONT_SIZE = 12"

text \<open>
  \<^verbatim>\<open>f'{v:.1f}'\<close>: one decimal place. The values the scripts format are not halfway
  between two tenths, where Python rounds the binary value to even.
\<close>

definition format_1f :: "real \<Rightarrow> string" where
  "format_1f v =
     (let n = round (\<bar>v\<bar> * 10)
      in (if v < 0 then ''-'' else []) @ str_int (n div 10) @ ''.'' @ str_int (n mod 10))"

text \<open>
  \<^verbatim>\<open>np.random.normal(loc, scale)\<close> draws from numpy's global generator, a library
  object. Its state is modelled by the sequence of standard normal variates it will
  return next; a call returns \<^verbatim>\<open>loc + scale * z\<close> for the first of them and leaves the
  rest. A chart function takes the state and returns it with the figure.
  \<^verbatim>\<open>add_noise scale xs\<close> is the comprehension
  \<^verbatim>\<open>[x + np.random.normal(0, scale) for x in xs]\<close>.

  Python floats are modelled as real numbers, so \<^verbatim>\<open>r + z\<close> is exact here while the
  program rounds it. Rounding is a function of the operands: equal draws give equal
  sums in both readings. The converse holds for reals only (two draws that differ by
  less than the rounding error give the same double), and nothing below relies on it:
  figures are shown different only on sums that are exact in binary floating point
  (\<^verbatim>\<open>33.5 + 2 * 0\<close> and \<^verbatim>\<open>33.5 + 2 * 1\<close>).
\<close>

type_synonym rng = "nat \<Rightarrow> real"

definition random_normal :: "real \<Rightarrow> real \<Rightarrow> rng \<Rightarrow> real \<times> rng" where
  "random_normal loc scale g = (loc + scale * g 0, \<lambda>n. g (Suc n))"

fun add_noise :: "real \<Rightarrow> real list \<Rightarrow> rng \<Rightarrow> real list \<times> rng" where
  "add_noise scale [] g = ([], g)"
| "add_noise scale (r # rs) g =
     (let (z, g') = random_normal 0 scale g;
          (rs', g'') = add_noise scale rs g'
      in ((r + z) # rs', g''))"

text \<open>
  \<^verbatim>\<open>create_cost_breakdown\<close> of \<^verbatim>\<open>create_cap_graphics.py\<close>.
\<close>

definition create_cost_breakdown :: "rng \<Rightarrow> figure \<times> rng" where
  "create_cost_breakdown g =
     (let categories = [''Feeding Assistance'', ''Volunteer Labor'', ''Facilities'',
                        ''Emergency Supplies'', ''Equipment & Vehicles''];
          vals = [670000, 380000, 220000, 186305, 150000]
      in ([Figure [go_Pie
             [(''labels'', Seq (map Str categories)),
              (''values'', Seq (map Num vals)),
              (''hole'', Num 0.4),
              (''marker_colors'',
                 Seq [Color (lookup cap_colors ''primary''), Color (lookup cap_colors ''accent''),
                      Color (lookup cap_colors ''success''), Color (lookup cap_colors ''warning''),
                      Color (lookup cap_colors ''secondary'')])]],
           update_traces (Dict
             [(''textposition'', Str ''outside''),
              (''textinfo'', Str ''label+percent''),
              (''textfont_size'', Num 12),
              (''marker'', Dict [(''line'', Dict [(''color'', Color ''white''), (''width'', Num 2)])])]),
           update_layout (Dict
             [(''title'', Dict
                [(''text'', Str ''Cost Containment Breakdown<br><sub>$1.6M Total Value from Partner Contributions</sub>''),
                 (''x'', Num 0.5),
                 (''xanchor'', Str ''center''),
                 (''font'', Dict [(''size'', Num 24), (''color'', Color (lookup cap_colors ''primary''))])]),
              (''height'', Num 500),
              (''paper_bgcolor'', Color ''white''),
              (''annotations'', Seq [Dict
                [(''text'', Str ''$1.6M<br>Total''), (''x'', Num 0.5), (''y'', Num 0.5),
                 (''font_size'', Num 20), (''showarrow'', Bool False)]])])],
          g))"

text \<open>
  \<^verbatim>\<open>create_roi_by_disaster\<close> of \<^verbatim>\<open>Python/create_20_visualizations.py\<close>: the figure it
  builds and returns through \<^verbatim>\<open>save_figure\<close> (which writes the HTML file, see
  \<^verbatim>\<open>create_20\<close>, and returns the figure as it is).
\<close>

definition create_roi_by_disaster :: "rng \<Rightarrow> figure \<times> rng" where
  "create_roi_by_disaster g =
     (let disaster_type = [''Hurricane'', ''Flooding'', ''Tornado''];
          roi = [37.30, 25.53, 9.77]
      in ([Figure [go_Bar
             [(''y'', Seq (map Str disaster_type)),
              (''x'', Seq (map Num roi)),
              (''orientation'', Str ''h''),
              (''marker_color'', Seq [Color ARC_RED, Color ARC_RED, Color ARC_GRAY]),
              (''text'', Seq (map (\<lambda>v. Str (format_1f v @ ''%'')) roi)),
              (''textposition'', Str ''outside''),
              (''textfont'', Dict [(''size'', Num 14), (''family'', Str FONT_FAMILY),
                                   (''color'', Color ARC_BLACK)])]],
           update_layout (Dict
             [(''title'', Str ''Return on Investment by Disaster Type''),
              (''title_font'', Dict [(''size'', Num TITLE_FONT_SIZE), (''family'', Str FONT_FAMILY),
                                     (''color'', Color ARC_RED)]),
              (''xaxis_title'', Str ''ROI (%)''),
              (''yaxis_title'', Str []),
              (''font'', Dict [(''family'', Str FONT_FAMILY), (''size'', Num AXIS_FONT_SIZE)]),
              (''paper_bgcolor'', Color ARC_WHITE),
              (''plot_bgcolor'', Color ARC_WHITE),
              (''height'', Num 400),
              (''width'', Num 800),
              (''xaxis'', Dict [(''gridcolor'', Color ARC_LIGHT_GRAY),
                                (''range'', Seq [Num 0, Num 45])]),
              (''margin'', Dict [(''l'', Num 100), (''r'', Num 50), (''t'', Num 50), (''b'', Num 50)])])],
          g))"

text \<open>
  \<^verbatim>\<open>create_3d_scatter\<close> of \<^verbatim>\<open>create_cool_visualizations_fixed.py\<close>: the literal lists
  (\<^verbatim>\<open>[...] * 3\<close> is three copies in a row), the noise added to each of them in turn, and
  the figure built from the noisy lists (\<^verbatim>\<open>scatter3d_figure\<close>). The title contains the
  multiplication sign, code point 0xD7.
\<close>

definition scatter3d_figure :: "string list \<Rightarrow> real list \<Rightarrow> real list \<Rightarrow> real list \<Rightarrow> figure" where
  "scatter3d_figure partners roi speed quality =
     [Figure [go_Scatter3d
        [(''x'', Seq (map Num roi)),
         (''y'', Seq (map Num speed)),
         (''z'', Seq (map Num quality)),
         (''mode'', Str ''markers''),
         (''text'', Seq (map Str partners)),
         (''marker'', Dict
            [(''size'', Seq (map (\<lambda>r. Num (r / 3)) roi)),
             (''color'', Seq (map Num roi)),
             (''colorscale'', Seq [Seq [Num 0, Color ARC_GRAY], Seq [Num 0.5, Color ''#FC8181''],
                                   Seq [Num 1, Color ARC_RED]]),
             (''showscale'', Bool True),
             (''colorbar'', Dict [(''title'', Str ''ROI %'')]),
             (''line'', Dict [(''color'', Color ''white''), (''width'', Num 1)]),
             (''opacity'', Num 0.8)]),
         (''hovertemplate'',
            Str ''<b>%{text}</b><br>ROI: %{x:.1f}%<br>Speed: %{y}<br>Quality: %{z}<extra></extra>'')]],
      update_layout (Dict
        [(''title'', Str (''3D Performance Space: ROI '' @ [CHR 0xD7] @ '' Speed '' @ [CHR 0xD7]
                           @ '' Quality'')),
         (''title_font'', Dict [(''size'', Num 24), (''family'', Str ''Arial Black''),
                                (''color'', Color ARC_RED)]),
         (''scene'', Dict
            [(''xaxis'', Dict [(''title'', Str ''ROI (%)''), (''gridcolor'', Color ''lightgray'')]),
             (''yaxis'', Dict [(''title'', Str ''Speed Score''), (''gridcolor'', Color ''lightgray'')]),
             (''zaxis'', Dict [(''title'', Str ''Quality Score''), (''gridcolor'', Color ''lightgray'')]),
             (''camera'', Dict [(''eye'', Dict [(''x'', Num 1.5), (''y'', Num 1.5), (''z'', Num 1.3)])])]),
         (''paper_bgcolor'', Color ''white''),
         (''height'', Num 800),
         (''width'', Num 1400)])]"

definition scatter_roi :: "real list" where
  "scatter_roi = concat (replicate 3 [33.5, 32.1, 30.1, 28.5, 26.3, 24.2, 23.0, 4.9, 22.5, 25.0])"

definition scatter_speed :: "real list" where
  "scatter_speed = concat (replicate 3 [95, 92, 88, 85, 82, 78, 75, 65, 80, 83])"

definition scatter_quality :: "real list" where
  "scatter_quality = concat (replicate 3 [98, 95, 92, 90, 88, 85, 83, 75, 87, 89])"

definition scatter_partners :: "string list" where
  "scatter_partners =
     concat (replicate 3
       [''Resilience Hub A'', ''Resilience Hub B'', ''Gateway A'', ''Gateway B'',
        ''Hunger Partner A'', ''Hunger Partner B'', ''Health Partner'', ''Housing Partner'',
        ''Faith Partner'', ''School Partner''])"

definition create_3d_scatter :: "rng \<Rightarrow> figure \<times> rng" where
  "create_3d_scatter g =
     (let (roi, g1) = add_noise 2 scatter_roi g;
          (speed, g2) = add_noise 3 scatter_speed g1;
          (quality, g3) = add_noise 2 scatter_quality g2
      in (scatter3d_figure scatter_partners roi speed quality, g3))"

text \<open>Generator states: all draws 0; all draws 1; the first 90 draws 0 and the rest 1.\<close>

definition rng_calm :: rng where
  "rng_calm = (\<lambda>n. 0)"



section \<open>Data and styling in the scripts\<close>

text \<open>
  What a figure holds: \<^verbatim>\<open>trace_data fig k\<close> is the property \<^verbatim>\<open>k\<close> of each trace passed
  to \<^verbatim>\<open>go.Figure\<close>.
\<close>

fun dict_get :: "pval \<Rightarrow> string \<Rightarrow> pval option" where
  "dict_get (Dict kvs) k = map_of kvs k"
| "dict_get _ k = None"

fun traces :: "fig_call \<Rightarrow> pval list" where
  "traces (Figure ts) = ts"
| "traces _ = []"

definition trace_data :: "figure \<Rightarrow> string \<Rightarrow> pval option list" where
  "trace_data fig k = map (\<lambda>t. dict_get t k) (concat (map traces fig))"

text \<open>
  \<^verbatim>\<open>create_funnel_pipeline\<close> of \<^verbatim>\<open>Python/create_cool_visualizations.py\<close>: the figure it
  builds and returns through \<^verbatim>\<open>save_figure\<close>.
\<close>

definition go_Funnel :: "(string \<times> pval) list \<Rightarrow> pval" where
  "go_Funnel props = Dict ((''type'', Str ''funnel'') # props)"

definition create_funnel_pipeline :: "rng \<Rightarrow> figure \<times> rng" where
  "create_funnel_pipeline g =
     (let stages = [''Communities Identified'', ''Partners Engaged'', ''Resources Mobilized'',
                    ''Services Delivered'', ''Clients Served'', ''Impact Measured''];
          vals = [10000, 8500, 7200, 6500, 5800, 5200]
      in ([Figure [go_Funnel
             [(''y'', Seq (map Str stages)),
              (''x'', Seq (map Num vals)),
              (''textposition'', Str ''inside''),
              (''textinfo'', Str ''value+percent initial''),
              (''opacity'', Num 0.85),
              (''marker'', Dict
                 [(''color'', Seq [Color ARC_RED, Color ''#E53E3E'', Color ''#F56565'',
                                   Color ''#FC8181'', Color ''#FEB2B2'', Color ''#FED7D7'']),
                  (''line'', Dict [(''width'', Num 2), (''color'', Color ARC_WHITE)])]),
              (''connector'', Dict [(''line'', Dict [(''color'', Color ARC_GRAY),
                                                     (''width'', Num 2)])])]],
           update_layout (Dict
             [(''title'', Str ''Service Delivery Pipeline Efficiency''),
              (''title_font'', Dict [(''size'', Num 22), (''family'', Str ''Arial Black''),
                                     (''color'', Color ARC_RED)]),
              (''paper_bgcolor'', Color ARC_WHITE),
              (''height'', Num 700),
              (''width'', Num 1400)])],
          g))"

text \<open>
  \<^verbatim>\<open>fortune500_graphics.py\<close>: its layout constants (\<^verbatim>\<open>FONT_FAMILY\<close> has the value it has
  in \<^verbatim>\<open>Python/create_20_visualizations.py\<close>), \<^verbatim>\<open>setup_professional_layout\<close>, which
  calls \<^verbatim>\<open>update_layout\<close>, \<^verbatim>\<open>update_xaxes\<close> and \<^verbatim>\<open>update_yaxes\<close> on the figure, and
  \<^verbatim>\<open>create_cost_containment_donut\<close>, whose list \<^verbatim>\<open>colors\<close> is \<^verbatim>\<open>marker_colors\<close> here. The
  title is an f-string; the apostrophe is code point 0x27.
\<close>

definition fortune500_TITLE_FONT_SIZE :: real where "fortune500_TITLE_FONT_SIZE = 28"
definition fortune500_SUBTITLE_FONT_SIZE :: int where "fortune500_SUBTITLE_FONT_SIZE = 16"
definition fortune500_AXIS_FONT_SIZE :: real where "fortune500_AXIS_FONT_SIZE = 14"
definition DEFAULT_HEIGHT :: real where "DEFAULT_HEIGHT = 600"

definition MARGIN_SETTINGS :: pval where
  "MARGIN_SETTINGS = Dict [(''l'', Num 80), (''r'', Num 80), (''t'', Num 120), (''b'', Num 80)]"

definition axes_style :: pval where
  "axes_style = Dict
     [(''showgrid'', Bool True),
      (''gridwidth'', Num 1),
      (''gridcolor'', Color ''rgba(0,0,0,0.1)''),
      (''zeroline'', Bool False),
      (''showline'', Bool True),
      (''linewidth'', Num 1),
      (''linecolor'', Color ''rgba(0,0,0,0.3)'')]"

definition setup_professional_layout :: "figure \<Rightarrow> string \<Rightarrow> string \<Rightarrow> real \<Rightarrow> figure" where
  "setup_professional_layout fig ttl subtitle h =
     fig @
     [update_layout (Dict
        [(''title'', Dict
           [(''text'', Str (''<b>'' @ ttl @ ''</b><br><span style='' @ [CHR 0x27] @ ''font-size:''
                            @ str_int fortune500_SUBTITLE_FONT_SIZE @ ''px;color:''
                            @ lookup ARC_COLORS ''secondary'' @ [CHR 0x27] @ ''>'' @ subtitle
                            @ ''</span>'')),
            (''x'', Num 0.5),
            (''xanchor'', Str ''center''),
            (''yanchor'', Str ''top''),
            (''font'', Dict [(''size'', Num fortune500_TITLE_FONT_SIZE),
                             (''color'', Color (lookup ARC_COLORS ''text'')),
                             (''family'', Str FONT_FAMILY)])]),
         (''font'', Dict [(''family'', Str FONT_FAMILY), (''size'', Num fortune500_AXIS_FONT_SIZE),
                          (''color'', Color (lookup ARC_COLORS ''text''))]),
         (''paper_bgcolor'', Color (lookup ARC_COLORS ''background'')),
         (''plot_bgcolor'', Color ''rgba(0,0,0,0.02)''),
         (''height'', Num h),
         (''margin'', MARGIN_SETTINGS),
         (''showlegend'', Bool True),
         (''legend'', Dict
            [(''orientation'', Str ''h''),
             (''yanchor'', Str ''bottom''),
             (''y'', Num (- 0.15)),
             (''xanchor'', Str ''center''),
             (''x'', Num 0.5),
             (''font'', Dict [(''size'', Num 12)])])]),
      update_xaxes axes_style,
      update_yaxes axes_style]"

definition create_cost_containment_donut :: "rng \<Rightarrow> figure \<times> rng" where
  "create_cost_containment_donut g =
     (let categories = [''Feeding Assistance'', ''Volunteer Labor'', ''Facilities & Equipment'',
                        ''Emergency Supplies'', ''Transportation''];
          vals = [670000, 380000, 220000, 186305, 150000];
          marker_colors = [lookup ARC_COLORS ''primary'', lookup ARC_COLORS ''secondary'',
                           lookup ARC_COLORS ''accent_dark'', lookup ARC_COLORS ''success'',
                           lookup ARC_COLORS ''warning''];
          fig = [Figure [go_Pie
             [(''labels'', Seq (map Str categories)),
              (''values'', Seq (map Num vals)),
              (''hole'', Num 0.5),
              (''marker'', Dict
                 [(''colors'', Seq (map Color marker_colors)),
                  (''line'', Dict [(''color'', Color ''white''), (''width'', Num 3)])]),
              (''textposition'', Str ''outside''),
              (''textinfo'', Str ''label+percent''),
              (''textfont'', Dict [(''size'', Num 12), (''family'', Str FONT_FAMILY)]),
              (''hovertemplate'',
                 Str ''<b>%{label}</b><br>Value: $%{value:,.0f}<br>Percentage: %{percent}<extra></extra>'')]]];
          fig = setup_professional_layout fig ''Cost Containment Breakdown''
                  ''$1.6M Total Value from Partner Contributions'' DEFAULT_HEIGHT;
          fig = fig @ [add_annotation (Dict
             [(''text'', Str ''<b>$1.6M</b><br>Total Savings''),
              (''x'', Num 0.5),
              (''y'', Num 0.5),
              (''font'', Dict [(''size'', Num 24), (''color'', Color (lookup ARC_COLORS ''primary'')),
                               (''family'', Str FONT_FAMILY)]),
              (''showarrow'', Bool False)])]
      in (fig, g))"

text \<open>
  \<^verbatim>\<open>create_pdf_simple.py\<close>: \<^verbatim>\<open>create_data_table\<close> builds a reportlab \<^verbatim>\<open>Table\<close> from the
  rows and a \<^verbatim>\<open>TableStyle\<close>, a list of commands (name, first cell, last cell,
  arguments); \<^verbatim>\<open>roi_table\<close> is the first table \<^verbatim>\<open>create_professional_pdf\<close> appends to
  the document.
\<close>

datatype style_value = SColor color | SColors "color list" | SStr string | SNum real

type_synonym style_command = "string \<times> (int \<times> int) \<times> (int \<times> int) \<times> style_value list"

record table =
  table_data :: "string list list"
  colWidths :: "real list"
  table_style :: "style_command list"

definition create_data_table :: "string \<Rightarrow> string list list \<Rightarrow> table" where
  "create_data_table ttl data_rows =
     \<lparr> table_data = [[ttl]] @ data_rows,
       colWidths = [3 * inch, 2 * inch],
       table_style =
         [(''BACKGROUND'', (0, 0), (- 1, 0), [SColor (HexColor ''#CC0000'')]),
          (''TEXTCOLOR'', (0, 0), (- 1, 0), [SColor White]),
          (''FONTNAME'', (0, 0), (- 1, 0), [SStr ''Helvetica-Bold'']),
          (''FONTSIZE'', (0, 0), (- 1, 0), [SNum 11]),
          (''SPAN'', (0, 0), (- 1, 0), []),
          (''ALIGN'', (0, 0), (- 1, 0), [SStr ''CENTER'']),
          (''BACKGROUND'', (0, 1), (- 1, - 1), [SColor White]),
          (''TEXTCOLOR'', (0, 1), (- 1, - 1), [SColor Black]),
          (''FONTNAME'', (0, 1), (- 1, - 1), [SStr ''Helvetica'']),
          (''FONTSIZE'', (0, 1), (- 1, - 1), [SNum 10]),
          (''GRID'', (0, 0), (- 1, - 1), [SNum 1, SColor Grey]),
          (''ALIGN'', (1, 1), (1, - 1), [SStr ''RIGHT'']),
          (''ROWBACKGROUNDS'', (0, 1), (- 1, - 1), [SColors [White, HexColor ''#F5F5F5'']])] \<rparr>"

definition roi_table :: table where
  "roi_table =
     create_data_table ''Return on Investment by Partner Type''
       [[''Resilience Hubs'', ''33.48%''],
        [''Community Gateways'', ''30.11%''],
        [''Hunger Partners'', ''26.33%''],
        [''Overall Program ROI'', ''28.30%'']]"

fun style_value_colors :: "style_value \<Rightarrow> color list" where
  "style_value_colors (SColor c) = [c]"
| "style_value_colors (SColors cs) = cs"
| "style_value_colors _ = []"

definition table_colors :: "table \<Rightarrow> color list" where
  "table_colors t =
     concat (map (\<lambda>(name, start, stop, args). concat (map style_value_colors args)) (table_style t))"

text \<open>
  \<^verbatim>\<open>create_real_cap_pdf.py\<close>: the list \<^verbatim>\<open>viz_list\<close> and the loop that appends one bullet
  paragraph per entry to \<^verbatim>\<open>elements\<close>. The prefix of the source, three characters
  outside ASCII and a space, is written as the bytes of its UTF-8 encoding.
\<close>

definition viz_list :: "string list" where
  "viz_list =
     [''1. Return on Investment by Disaster Type (37.3% for hurricanes)'',
      ''2. Cost Containment Breakdown ($1.6M total savings)'',
      ''3. Speed Advantage Analysis (1-4 days faster response)'',
      ''4. Immediate Assistance Uptake Rates (93% in CAP areas vs 67% overall)'',
      ''5. Volunteer Engagement Trends (+35.92% in CAP jurisdictions)'',
      ''6. Homes Made Safer Impact (+66.24% increase)'',
      ''7. Geographic Impact by State'',
      ''8. Stakeholder Sentiment Analysis'']"

definition bullet_prefix :: string where
  "bullet_prefix = [CHR 0xC3, CHR 0xA2, CHR 0xE2, CHR 0x82, CHR 0xAC, CHR 0xC2, CHR 0xA2, CHR 0x20]"

definition append_viz_list :: "flowable list \<Rightarrow> flowable list" where
  "append_viz_list elements =
     fold (\<lambda>viz els. els @ [Paragraph (bullet_prefix @ viz) ''BulletStyle'']) viz_list elements"

text \<open>
  \<^verbatim>\<open>create_fortune500_pdf.py\<close>: the list \<^verbatim>\<open>metrics\<close> of the executive summary with the
  loop that appends a paragraph and a spacer per entry to the story, and
  \<^verbatim>\<open>draw_page_number\<close> of its \<^verbatim>\<open>NumberedCanvas\<close>, with \<^verbatim>\<open>ARC_RED\<close> and \<^verbatim>\<open>ARC_GRAY\<close> the
  \<^verbatim>\<open>HexColor\<close> values of \<open>#CC0000\<close> and \<open>#6B7C93\<close>.
\<close>

definition metrics :: "(string \<times> string) list" where
  "metrics =
     [(''Quality Enhancement'', ''93% IA completion rate in CAP parishes vs. 67% overall''),
      (''Cost Containment'', ''$1.6M+ total savings with 28.3% ROI on investments''),
      (''Response Speed'', ''1-4 days faster service delivery in most disaster operations''),
      (''Community Impact'',
       ''35.9% increase in volunteer engagement, 66.2% increase in homes made safer'')]"

definition append_metrics :: "flowable list \<Rightarrow> flowable list" where
  "append_metrics story =
     fold (\<lambda>(metric_title, metric_value) st.
             st @ [Paragraph (''<b>'' @ metric_title @ ''</b><br/>'' @ metric_value) ''MetricBox'',
                   Spacer 1 6])
       metrics story"

definition draw_page_number_fortune500 :: "int \<Rightarrow> int \<Rightarrow> canvas_op list" where
  "draw_page_number_fortune500 page_num total_pages =
     (if page_num = 1 then []
      else [SetStrokeColor (HexColor ''#CC0000''),
            SetLineWidth 2,
            Line 72 (snd letter - 72) (fst letter - 72) (snd letter - 72),
            SetFont ''Helvetica'' 10,
            SetFillColor (HexColor ''#6B7C93''),
            DrawRightString (fst letter - 72) 36
              (''Page '' @ str_int (page_num - 1) @ '' of '' @ str_int (total_pages - 1)),
            SetFont ''Helvetica-Bold'' 10,
            SetFillColor (HexColor ''#CC0000''),
            DrawString 72 (snd letter - 60) ''CAP EVALUATION REPORT''])"

text \<open>The colours a sequence of canvas operations sets.\<close>

fun op_colors :: "canvas_op \<Rightarrow> color list" where
  "op_colors (SetStrokeColor c) = [c]"
| "op_colors (SetFillColor c) = [c]"
| "op_colors _ = []"

definition canvas_colors :: "canvas_op list \<Rightarrow> color list" where
  "canvas_colors ops = concat (map op_colors ops)"

section \<open>Properties of strings and wrapping\<close>

lemma isspace_space [simp]: "isspace CHR '' ''"
  by (simp add: isspace_def)



lemma takeWhile_all: "\<forall>x\<in>set cs. P x \<Longrightarrow> takeWhile P cs = cs"
  by simp

lemma dropWhile_all: "\<forall>x\<in>set cs. P x \<Longrightarrow> dropWhile P cs = []"
  by simp

lemma py_split_append_space:
  "isspace s \<Longrightarrow> py_split (a @ s # b) = py_split a @ py_split b"
proof (induction a rule: py_split.induct)
  case 1
  then show ?case by simp
next
  case (2 c cs)
  show ?case
  proof (cases "isspace c")
    case True
    with 2 show ?thesis by simp
  next
    case False
    show ?thesis
    proof (cases "\<forall>x\<in>set cs. \<not> isspace x")
      case True
      have "takeWhile (\<lambda>x. \<not> isspace x) (cs @ s # b) = cs"
        using True 2(3) by (simp add: takeWhile_append)
      moreover have "dropWhile (\<lambda>x. \<not> isspace x) (cs @ s # b) = s # b"
        using True 2(3) by (simp add: dropWhile_append)
      ultimately show ?thesis
        using False 2(3) True by (simp add: takeWhile_all dropWhile_all)
    next
      case nall: False
      then obtain x where x: "x \<in> set cs" "\<not> \<not> isspace x" by blast
      have "takeWhile (\<lambda>x. \<not> isspace x) (cs @ s # b) = takeWhile (\<lambda>x. \<not> isspace x) cs"
        using x by (rule takeWhile_append1)
      moreover have "dropWhile (\<lambda>x. \<not> isspace x) (cs @ s # b)
          = dropWhile (\<lambda>x. \<not> isspace x) cs @ s # b"
        using x by (rule dropWhile_append1)
      ultimately show ?thesis
        using False 2(2) [OF False 2(3)] by simp
    qed
  qed
qed

lemma py_split_word:
  assumes "w \<noteq> []" and "\<forall>x\<in>set w. \<not> isspace x"
  shows "py_split w = [w]"
proof (cases w)
  case Nil
  with assms show ?thesis by simp
next
  case (Cons c cs)
  with assms have "\<forall>x\<in>set cs. \<not> isspace x" and "\<not> isspace c" by simp_all
  with Cons show ?thesis by (simp add: takeWhile_all dropWhile_all)
qed

lemma py_split_words_clean:
  "w \<in> set (py_split s) \<Longrightarrow> w \<noteq> [] \<and> (\<forall>x\<in>set w. \<not> isspace x)"
proof (induction s rule: py_split.induct)
  case 1
  then show ?case by simp
next
  case (2 c cs)
  show ?case
  proof (cases "isspace c")
    case True
    with 2 show ?thesis by simp
  next
    case False
    with 2(3) have "w = c # takeWhile (\<lambda>x. \<not> isspace x) cs
        \<or> w \<in> set (py_split (dropWhile (\<lambda>x. \<not> isspace x) cs))"
      by simp
    then show ?thesis
    proof
      assume w: "w = c # takeWhile (\<lambda>x. \<not> isspace x) cs"
      have "\<forall>x\<in>set (takeWhile (\<lambda>x. \<not> isspace x) cs). \<not> isspace x"
        by (blast dest: set_takeWhileD)
      with w False show ?thesis by simp
    next
      assume "w \<in> set (py_split (dropWhile (\<lambda>x. \<not> isspace x) cs))"
      with 2(2) [OF False] show ?thesis .
    qed
  qed
qed

lemma py_split_idem:
  "w \<in> set (py_split s) \<Longrightarrow> py_split w = [w]"
  using py_split_words_clean [of w s] py_split_word [of w] by blast

lemma py_split_dropWhile_space: "py_split (dropWhile isspace s) = py_split s"
  by (induction s) simp_all

lemma py_split_rstrip: "py_split (rev (dropWhile isspace (rev s))) = py_split s"
proof (induction s rule: rev_induct)
  case Nil
  then show ?case by simp
next
  case (snoc x xs)
  show ?case
  proof (cases "isspace x")
    case True
    with snoc py_split_append_space [of x xs "[]"] show ?thesis by simp
  next
    case False
    then show ?thesis by simp
  qed
qed

lemma py_split_strip: "py_split (py_strip s) = py_split s"
  by (simp add: py_strip_def py_split_rstrip py_split_dropWhile_space)

lemma wrap_loop_words:
  "wrap_loop m ws cur lines = (lines', cur') \<Longrightarrow>
   concat (map py_split lines') @ py_split cur'
     = concat (map py_split lines) @ py_split cur @ concat (map py_split ws)"
proof (induction ws arbitrary: cur lines)
  case Nil
  then show ?case by simp
next
  case (Cons w ws)
  show ?case
  proof (cases "length (cur @ '' '' @ w) \<le> m")
    case True
    with Cons.prems
    have "wrap_loop m ws (if cur \<noteq> [] then cur @ '' '' @ w else w) lines = (lines', cur')"
      by simp
    from Cons.IH [OF this] show ?thesis
      using py_split_append_space [of "CHR '' ''" cur w] by (simp split: if_splits)
  next
    case False
    with Cons.prems
    have "wrap_loop m ws w (if cur \<noteq> [] then lines @ [cur] else lines) = (lines', cur')"
      by simp
    from Cons.IH [OF this] show ?thesis
      by (simp split: if_splits)
  qed
qed

lemma concat_map_singletons:
  "\<forall>x\<in>set xs. f x = [x] \<Longrightarrow> concat (map f xs) = xs"
  by (induction xs) simp_all

lemma concat_map_py_split_words:
  "concat (map py_split (py_split s)) = py_split s"
  by (rule concat_map_singletons) (simp add: py_split_idem)

lemma wrap_lines_words:
  "concat (map py_split (wrap_lines cnt)) = py_split cnt"
proof -
  obtain lines cur where w: "wrap_loop 65 (py_split cnt) [] [] = (lines, cur)"
    by (cases "wrap_loop 65 (py_split cnt) [] []") auto
  from wrap_loop_words [OF w]
  have "concat (map py_split lines) @ py_split cur = py_split cnt"
    by (simp add: concat_map_py_split_words)
  with w show ?thesis
    by (auto simp: wrap_lines_def Let_def)
qed


lemma wrap_loop_lengths:
  assumes "wrap_loop m ws cur lines = (lines', cur')"
    and "\<forall>l\<in>set lines. length l \<le> m \<or> (l \<in> W \<and> m < length l)"
    and "cur = [] \<or> length cur \<le> m \<or> (cur \<in> W \<and> m < length cur)"
    and "set ws \<subseteq> W"
  shows "(\<forall>l\<in>set lines'. length l \<le> m \<or> (l \<in> W \<and> m < length l)) \<and>
         (cur' = [] \<or> length cur' \<le> m \<or> (cur' \<in> W \<and> m < length cur'))"
  using assms
proof (induction ws arbitrary: cur lines)
  case Nil
  then show ?case by simp
next
  case (Cons w ws)
  show ?case
  proof (cases "length (cur @ '' '' @ w) \<le> m")
    case True
    with Cons.prems(1)
    have step: "wrap_loop m ws (if cur \<noteq> [] then cur @ '' '' @ w else w) lines = (lines', cur')"
      by simp
    show ?thesis
    proof (rule Cons.IH [OF step Cons.prems(2)])
      show "(if cur \<noteq> [] then cur @ '' '' @ w else w) = [] \<or>
            length (if cur \<noteq> [] then cur @ '' '' @ w else w) \<le> m \<or>
            ((if cur \<noteq> [] then cur @ '' '' @ w else w) \<in> W \<and>
             m < length (if cur \<noteq> [] then cur @ '' '' @ w else w))"
        using True by simp
      show "set ws \<subseteq> W" using Cons.prems(4) by simp
    qed
  next
    case False
    with Cons.prems(1)
    have step: "wrap_loop m ws w (if cur \<noteq> [] then lines @ [cur] else lines) = (lines', cur')"
      by simp
    show ?thesis
    proof (rule Cons.IH [OF step])
      show "\<forall>l\<in>set (if cur \<noteq> [] then lines @ [cur] else lines).
              length l \<le> m \<or> (l \<in> W \<and> m < length l)"
        using Cons.prems(2,3) by auto
      show "w = [] \<or> length w \<le> m \<or> (w \<in> W \<and> m < length w)"
        using Cons.prems(4) by (cases "length w \<le> m") auto
      show "set ws \<subseteq> W" using Cons.prems(4) by simp
    qed
  qed
qed

lemma wrap_lines_lengths:
  "l \<in> set (wrap_lines cnt) \<Longrightarrow>
   length l \<le> 65 \<or> (l \<in> set (py_split cnt) \<and> 65 < length l)"
proof -
  assume l: "l \<in> set (wrap_lines cnt)"
  obtain lines cur where w: "wrap_loop 65 (py_split cnt) [] [] = (lines, cur)"
    by (cases "wrap_loop 65 (py_split cnt) [] []") auto
  from wrap_loop_lengths [OF w, of "set (py_split cnt)"]
  have "(\<forall>l\<in>set lines. length l \<le> 65 \<or> (l \<in> set (py_split cnt) \<and> 65 < length l)) \<and>
        (cur = [] \<or> length cur \<le> 65 \<or> (cur \<in> set (py_split cnt) \<and> 65 < length cur))"
    by simp
  moreover from l w have "l \<in> set lines \<or> (l = cur \<and> cur \<noteq> [])"
    by (auto simp: wrap_lines_def Let_def split: if_splits)
  ultimately show ?thesis by blast
qed

lemma line_capacity_step:
  assumes "y > 0.2 * inch"
  shows "line_capacity y = Suc (line_capacity (y - 0.18 * inch))"
proof -
  define x where "x = (y - 0.2 * inch) / (0.18 * inch)"
  have cap: "line_capacity y = nat \<lceil>x\<rceil>"
    unfolding line_capacity_def x_def using assms by (simp only: if_True)
  have shift: "(y - 0.18 * inch - 0.2 * inch) / (0.18 * inch) = x - 1"
    unfolding x_def by (simp add: inch_def field_simps)
  have xpos: "0 < x"
    unfolding x_def using assms by (simp add: inch_def field_simps)
  show ?thesis
  proof (cases "y - 0.18 * inch > 0.2 * inch")
    case True
    then have cap': "line_capacity (y - 0.18 * inch) = nat \<lceil>x - 1\<rceil>"
      unfolding line_capacity_def shift by (simp only: if_True)
    have "1 < x"
      unfolding x_def using True by (simp add: inch_def field_simps)
    then have ge: "2 \<le> \<lceil>x\<rceil>" by linarith
    have "nat k = Suc (nat (k - 1))" if "2 \<le> k" for k :: int
      using that by arith
    from this [OF ge] show ?thesis unfolding cap cap' ceiling_diff_one .
  next
    case False
    then have cap': "line_capacity (y - 0.18 * inch) = 0"
      unfolding line_capacity_def by (simp only: if_False)
    have "x \<le> 1"
      unfolding x_def using False by (simp add: inch_def field_simps)
    with xpos have "\<lceil>x\<rceil> = 1" by linarith
    then show ?thesis unfolding cap cap' by simp
  qed
qed

lemma line_capacity_zero: "\<not> y > 0.2 * inch \<Longrightarrow> line_capacity y = 0"
  by (simp add: line_capacity_def)

lemma draw_lines_simple_strings:
  "centred_strings (draw_lines_simple w y ls) = map py_strip (take (line_capacity y) ls)"
proof (induction ls arbitrary: y)
  case Nil
  then show ?case by simp
next
  case (Cons l ls)
  show ?case
  proof (cases "y > 0.2 * inch")
    case True
    then show ?thesis
      using Cons.IH [of "y - 0.18 * inch"] line_capacity_step [OF True] by simp
  next
    case False
    then show ?thesis
      using Cons.IH [of y] line_capacity_zero [OF False] by simp
  qed
qed

lemma draw_loop_professional_words:
  "concat (map py_split (centred_strings (draw_loop_professional sw w mw ws line y)))
     = py_split line @ concat (map py_split ws)"
proof (induction ws arbitrary: line y)
  case Nil
  then show ?case by simp
next
  case (Cons a ws)
  show ?case
  proof (cases "line = []")
    case True
    then show ?thesis
      using Cons.IH [of a y] by (simp add: Let_def)
  next
    case False
    then show ?thesis
      using Cons.IH [of "line @ '' '' @ a" y] Cons.IH [of a "y - 0.2 * inch"]
        py_split_append_space [of "CHR '' ''" line a]
      by (simp add: Let_def)
  qed
qed

lemma concat_map_take_prefix: "prefix (concat (map f (take n xs))) (concat (map f xs))"
proof -
  have "concat (map f xs) = concat (map f (take n xs)) @ concat (map f (drop n xs))"
    by (metis append_take_drop_id concat_append map_append)
  then show ?thesis by (simp add: prefix_def)
qed

lemma py_split_o_strip: "py_split \<circ> py_strip = py_split"
  by (rule ext) (simp add: py_split_strip)

lemma content_words_simple:
  "content_words (draw_simple (CalloutBox_simple t c b))
     = concat (map py_split (take (line_capacity (calculate_height_simple c - 0.55 * inch)) (wrap_lines c)))"
  by (simp add: content_words_def draw_simple_def CalloutBox_simple_def Let_def
      draw_lines_simple_strings py_split_o_strip)

lemma content_words_professional:
  "content_words (draw_professional sw (CalloutBox_professional t c b)) = py_split c"
  by (simp add: content_words_def draw_professional_def CalloutBox_professional_def
      draw_loop_professional_words concat_map_py_split_words)

lemma line_capacity_simple:
  "line_capacity (calculate_height_simple c - 0.55 * inch)
     = (if length c < 50 then 2 else if length c < 100 then 4 else if length c < 150 then 5 else 7)"
  by (simp add: line_capacity_def calculate_height_simple_def inch_def Let_def)

section \<open>Properties of the height functions\<close>

lemma calculate_height_simple_mono:
  "length c1 \<le> length c2 \<Longrightarrow> calculate_height_simple c1 \<le> calculate_height_simple c2"
  by (simp add: calculate_height_simple_def inch_def Let_def)

lemma calculate_height_professional_mono:
  "length c1 \<le> length c2 \<Longrightarrow>
   calculate_height_professional c1 \<le> calculate_height_professional c2"
  by (simp add: calculate_height_professional_def inch_def Let_def max_def)

lemma calculate_height_simple_range:
  "1.0 * inch \<le> calculate_height_simple c \<and> calculate_height_simple c \<le> 2.0 * inch"
  by (simp add: calculate_height_simple_def inch_def Let_def)

text \<open>
  C9. Both versions of \<^verbatim>\<open>_calculate_height\<close> are monotone non-decreasing in the length
  of the content string; the version of \<^verbatim>\<open>create_pdf_simple.py\<close> returns a height
  between 1.0 inch and 2.0 inches inclusive, and the version of
  \<^verbatim>\<open>create_professional_pdf.py\<close> returns at least 1.5 inches.
\<close>

theorem calculate_height_monotone_bounded:
  "(length c1 \<le> length c2 \<longrightarrow>
      calculate_height_simple c1 \<le> calculate_height_simple c2 \<and>
      calculate_height_professional c1 \<le> calculate_height_professional c2) \<and>
   1.0 * inch \<le> calculate_height_simple c \<and> calculate_height_simple c \<le> 2.0 * inch \<and>
   1.5 * inch \<le> calculate_height_professional c"
  using calculate_height_simple_mono [of c1 c2] calculate_height_professional_mono [of c1 c2]
    calculate_height_simple_range [of c]
  by (simp add: calculate_height_professional_def)

theorem calculate_height_monotone_bounded_witness:
  "length ''CAP'' \<le> length ''CAP partners'' \<and>
   calculate_height_simple ''CAP'' \<le> calculate_height_simple ''CAP partners'' \<and>
   calculate_height_professional ''CAP'' \<le> calculate_height_professional ''CAP partners'' \<and>
   1.0 * inch \<le> calculate_height_simple ''CAP'' \<and>
   calculate_height_simple ''CAP'' \<le> 2.0 * inch \<and>
   1.5 * inch \<le> calculate_height_professional ''CAP''"
  using calculate_height_monotone_bounded [of "''CAP''" "''CAP partners''" "''CAP''"]
  by simp


section \<open>Properties of the call-out boxes\<close>

text \<open>
  C8. The wrapping loop of the simple \<^verbatim>\<open>CalloutBox.draw\<close> produces lines such that every
  line has at most 65 characters or is a single word of the content longer than 65
  characters, and the words of the lines, concatenated in order, are
  \<^verbatim>\<open>content.split()\<close>.
\<close>

theorem wrap_lines_simple_correct:
  "(\<forall>l\<in>set (wrap_lines cnt).
      length l \<le> 65 \<or> (py_split l = [l] \<and> l \<in> set (py_split cnt) \<and> 65 < length l)) \<and>
   concat (map py_split (wrap_lines cnt)) = py_split cnt"
proof (intro conjI ballI)
  fix l
  assume "l \<in> set (wrap_lines cnt)"
  from wrap_lines_lengths [OF this]
  show "length l \<le> 65 \<or> (py_split l = [l] \<and> l \<in> set (py_split cnt) \<and> 65 < length l)"
    by (auto simp: py_split_idem)
next
  show "concat (map py_split (wrap_lines cnt)) = py_split cnt"
    by (rule wrap_lines_words)
qed

theorem wrap_lines_simple_correct_witness:
  "wrap_lines ''28.3% ROI  on partner   investment'' = [''28.3% ROI on partner investment''] \<and>
   length ''28.3% ROI on partner investment'' \<le> 65 \<and>
   concat (map py_split (wrap_lines ''28.3% ROI  on partner   investment''))
     = py_split ''28.3% ROI  on partner   investment''"
  using wrap_lines_simple_correct [of "''28.3% ROI  on partner   investment''"]
  by code_simp

text \<open>
  C5 as stated fails for the box of \<^verbatim>\<open>create_pdf_simple.py\<close>: a content of eight
  33-letter words wraps into eight lines, and the eighth is not drawn.
\<close>

theorem draw_simple_omits_words:
  "content_words (draw_simple (CalloutBox_simple ''KEY METRIC'' long_content ''metric''))
     \<noteq> py_split long_content"
proof
  assume eq: "content_words (draw_simple (CalloutBox_simple ''KEY METRIC'' long_content ''metric''))
    = py_split long_content"
  have "length (content_words (draw_simple (CalloutBox_simple ''KEY METRIC'' long_content ''metric''))) = 7"
    by code_simp
  moreover have "length (py_split long_content) = 8"
    by code_simp
  ultimately show False using eq by simp
qed

text \<open>
  C5, amended. For every title, content and box type: the box of
  \<^verbatim>\<open>create_professional_pdf.py\<close> draws lines whose words are exactly
  \<^verbatim>\<open>content.split()\<close>, whatever the font metrics; the box of \<^verbatim>\<open>create_pdf_simple.py\<close>
  draws only the first wrapped lines that start above 0.2 inch (2, 4, 5 or 7 lines,
  by the length of the content), so the words it draws are a prefix of
  \<^verbatim>\<open>content.split()\<close>.
\<close>

theorem callout_draw_words:
  "content_words (draw_professional sw (CalloutBox_professional t c b)) = py_split c \<and>
   content_words (draw_simple (CalloutBox_simple t c b))
     = concat (map py_split
         (take (if length c < 50 then 2 else if length c < 100 then 4
                else if length c < 150 then 5 else 7) (wrap_lines c))) \<and>
   prefix (content_words (draw_simple (CalloutBox_simple t c b))) (py_split c)"
proof (intro conjI)
  show "content_words (draw_professional sw (CalloutBox_professional t c b)) = py_split c"
    by (rule content_words_professional)
  show "content_words (draw_simple (CalloutBox_simple t c b))
     = concat (map py_split
         (take (if length c < 50 then 2 else if length c < 100 then 4
                else if length c < 150 then 5 else 7) (wrap_lines c)))"
    unfolding content_words_simple line_capacity_simple ..
  show "prefix (content_words (draw_simple (CalloutBox_simple t c b))) (py_split c)"
    unfolding content_words_simple
    using concat_map_take_prefix [of py_split _ "wrap_lines c"]
    by (simp add: wrap_lines_words)
qed

section \<open>Properties of the page-numbering canvases\<close>

lemma Canvas_save_doc_pages [simp]:
  "doc_pages (Canvas_save showPage self) = doc_pages self"
  by (simp add: Canvas_save_def showPage_def startPage_def)

lemma save_fold_doc_pages:
  assumes "\<And>c. doc_pages (number_page c) = doc_pages c"
    and "\<And>c. code (number_page c) = code c @ stamp (pageNumber c)"
  shows "doc_pages (fold (\<lambda>state c. Canvas_showPage (number_page (dict_update c state))) sts self)
           = doc_pages self @ map (\<lambda>st. st_code st @ stamp (st_pageNumber st)) sts"
proof (induction sts arbitrary: self)
  case Nil
  then show ?case by simp
next
  case (Cons st sts)
  have "doc_pages (Canvas_showPage (number_page (dict_update self st)))
          = doc_pages self @ [st_code st @ stamp (st_pageNumber st)]"
    by (simp add: Canvas_showPage_def startPage_def assms dict_update_def)
  then show ?case
    using Cons.IH [of "Canvas_showPage (number_page (dict_update self st))"] by simp
qed

lemma save_loop_doc_pages:
  assumes "\<And>c. doc_pages (number_page c) = doc_pages c"
    and "\<And>c. code (number_page c) = code c @ stamp (pageNumber c)"
  shows "doc_pages (save_loop number_page self)
           = doc_pages self
             @ map (\<lambda>st. st_code st @ stamp (st_pageNumber st)) (saved_page_states self)"
  unfolding save_loop_def Canvas_save_doc_pages
  by (rule save_fold_doc_pages [OF assms])

lemma save_professional_doc_pages:
  "doc_pages (save_professional now self)
     = doc_pages self
       @ map (\<lambda>st. st_code st
                @ draw_page_number_professional now (st_pageNumber st)
                    (int (length (saved_page_states self))))
           (saved_page_states self)"
  unfolding save_professional_def Let_def
  by (rule save_loop_doc_pages) (simp_all add: canvas_draw_def)

lemma save_simple_doc_pages:
  "doc_pages (save_simple self)
     = doc_pages self
       @ map (\<lambda>st. st_code st
                @ draw_page_number_simple (st_pageNumber st)
                    (int (length (saved_page_states self))))
           (saved_page_states self)"
  unfolding save_simple_def Let_def
  by (rule save_loop_doc_pages) (simp_all add: canvas_draw_def)

lemma save_real_doc_pages:
  "doc_pages (save_real self)
     = doc_pages self
       @ map (\<lambda>st. st_code st @ draw_page_number_real (st_pageNumber st + 1))
           (saved_page_states self)"
  unfolding save_real_def
  by (rule save_loop_doc_pages) (simp_all add: canvas_draw_def Let_def)

lemma showPage_saves:
  "doc_pages (showPage self) = doc_pages self \<and>
   saved_page_states (showPage self)
     = saved_page_states self @ [\<lparr> st_pageNumber = pageNumber self, st_code = code self \<rparr>] \<and>
   pageNumber (showPage self) = pageNumber self + 1 \<and>
   code (showPage self) = []"
  by (simp add: showPage_def startPage_def)

lemma call_doc_pages [simp]: "doc_pages (call x self) = doc_pages self"
  by (cases x) (simp_all add: canvas_draw_def showPage_saves)

lemma build_doc_pages: "doc_pages (build calls self) = doc_pages self"
  unfolding build_def by (induction calls arbitrary: self) simp_all

lemma shifted_upt: "a # map (\<lambda>k. a + 1 + int k) [0..<n] = map (\<lambda>k. a + int k) [0..<Suc n]"
proof -
  have "[0..<Suc n] = 0 # map Suc [0..<n]"
    by (simp add: upt_conv_Cons map_Suc_upt del: upt_Suc)
  then show ?thesis
    by (simp add: comp_def add.assoc del: upt_Suc)
qed

lemma build_saved:
  "map st_pageNumber (saved_page_states (build calls self))
     = map st_pageNumber (saved_page_states self)
       @ map (\<lambda>k. pageNumber self + int k) [0..<count_list calls ShowPage]"
  unfolding build_def
proof (induction calls arbitrary: self)
  case Nil
  then show ?case by simp
next
  case (Cons x calls)
  show ?case
  proof (cases x)
    case (Draw op)
    then show ?thesis
      using Cons.IH [of "canvas_draw [op] self"] by (simp add: canvas_draw_def)
  next
    case ShowPage
    then show ?thesis
      using Cons.IH [of "showPage self"] shifted_upt [of "pageNumber self" "count_list calls ShowPage"]
      by (simp add: showPage_saves del: upt_Suc)
  qed
qed

lemma map_by_index:
  assumes "map st_pageNumber sts = map (\<lambda>k. a + int k) [0..<n]"
  shows "map (\<lambda>st. F (st_code st) (st_pageNumber st)) sts
           = map (\<lambda>k. F (st_code (sts ! k)) (a + int k)) [0..<n]"
proof -
  from assms have len: "length sts = n"
    by (metis length_map length_upt minus_nat.diff_0)
  show ?thesis
  proof (rule nth_equalityI)
    show "length (map (\<lambda>st. F (st_code st) (st_pageNumber st)) sts)
            = length (map (\<lambda>k. F (st_code (sts ! k)) (a + int k)) [0..<n])"
      using len by simp
  next
    fix i
    assume "i < length (map (\<lambda>st. F (st_code st) (st_pageNumber st)) sts)"
    then have i: "i < n" using len by simp
    have "map st_pageNumber sts ! i = map (\<lambda>k. a + int k) [0..<n] ! i"
      using assms by simp
    then have "st_pageNumber (sts ! i) = a + int i"
      using i len by simp
    then show "map (\<lambda>st. F (st_code st) (st_pageNumber st)) sts ! i
                 = map (\<lambda>k. F (st_code (sts ! k)) (a + int k)) [0..<n] ! i"
      using i len by simp
  qed
qed

lemma build_init_saved:
  "map st_pageNumber (saved_page_states (build calls Canvas_init))
     = map (\<lambda>k. 1 + int k) [0..<count_list calls ShowPage]"
  using build_saved [of calls Canvas_init] by (simp add: Canvas_init_def)

lemma build_init_real_saved:
  "map st_pageNumber (saved_page_states (build calls NumberedCanvas_init_real))
     = map (\<lambda>k. 0 + int k) [0..<count_list calls ShowPage]"
  using build_saved [of calls NumberedCanvas_init_real]
  by (simp add: NumberedCanvas_init_real_def Canvas_init_def)

lemma build_saved_length:
  "length (saved_page_states (build calls self))
     = length (saved_page_states self) + count_list calls ShowPage"
  using arg_cong [OF build_saved [of calls self], of length] by simp

text \<open>
  C4. In the \<^verbatim>\<open>NumberedCanvas\<close> of \<^verbatim>\<open>create_professional_pdf.py\<close>, \<^verbatim>\<open>showPage\<close> adds no
  page to the document and saves the current page state; after any sequence of drawing
  and \<^verbatim>\<open>showPage\<close> calls on a new canvas, \<^verbatim>\<open>save\<close> emits exactly one page per saved
  state, in order, each made of the page's own operations followed by the stamp with
  the text \<open>Page i of N\<close>, where \<open>i\<close> is the page's number (the \<open>k\<close>-th page, counted
  from 0, has number \<open>k + 1\<close>) and \<open>N\<close> is the number of saved states.
\<close>

theorem numbered_canvas_professional:
  "doc_pages (showPage self) = doc_pages self \<and>
   saved_page_states (showPage self)
     = saved_page_states self @ [\<lparr> st_pageNumber = pageNumber self, st_code = code self \<rparr>] \<and>
   doc_pages (build calls Canvas_init) = [] \<and>
   length (saved_page_states (build calls Canvas_init)) = count_list calls ShowPage \<and>
   doc_pages (save_professional now (build calls Canvas_init))
     = map (\<lambda>k. st_code (saved_page_states (build calls Canvas_init) ! k)
                @ draw_page_number_professional now (1 + int k)
                    (int (count_list calls ShowPage)))
         [0..<count_list calls ShowPage] \<and>
   DrawCentredString (fst letter / 2) (0.5 * inch) (''Page '' @ str_int i @ '' of '' @ str_int n)
     \<in> set (draw_page_number_professional now i n)"
proof (intro conjI)
  show "doc_pages (showPage self) = doc_pages self"
    by (simp add: showPage_saves)
  show "saved_page_states (showPage self)
     = saved_page_states self @ [\<lparr> st_pageNumber = pageNumber self, st_code = code self \<rparr>]"
    by (simp add: showPage_saves)
  show empty: "doc_pages (build calls Canvas_init) = []"
    by (simp add: build_doc_pages Canvas_init_def)
  show len: "length (saved_page_states (build calls Canvas_init)) = count_list calls ShowPage"
    by (simp add: build_saved_length Canvas_init_def)
  show "doc_pages (save_professional now (build calls Canvas_init))
     = map (\<lambda>k. st_code (saved_page_states (build calls Canvas_init) ! k)
                @ draw_page_number_professional now (1 + int k)
                    (int (count_list calls ShowPage)))
         [0..<count_list calls ShowPage]"
    unfolding save_professional_doc_pages empty len
    using map_by_index [OF build_init_saved,
        of "\<lambda>ops p. ops @ draw_page_number_professional now p (int (count_list calls ShowPage))"]
    by simp
  show "DrawCentredString (fst letter / 2) (0.5 * inch)
          (''Page '' @ str_int i @ '' of '' @ str_int n)
     \<in> set (draw_page_number_professional now i n)"
    by (simp add: draw_page_number_professional_def)
qed

text \<open>
  C10 as stated fails in its last part: in \<^verbatim>\<open>create_real_cap_pdf.py\<close> no page is
  stamped with 1. Of three pages the first carries no stamp and the others carry 2
  and 3.
\<close>

theorem real_cap_stamps_start_at_two:
  "doc_pages (save_real (build
      [Draw (DrawString 72 700 ''Executive Summary''), ShowPage,
       Draw (DrawString 72 700 ''Findings''), ShowPage,
       Draw (DrawString 72 700 ''Recommendations''), ShowPage]
      NumberedCanvas_init_real))
   = [[DrawString 72 700 ''Executive Summary''],
      [DrawString 72 700 ''Findings'',
       SetFont ''Times-Roman'' 10, SetFillColor Black, DrawRightString 558 36 ''2''],
      [DrawString 72 700 ''Recommendations'',
       SetFont ''Times-Roman'' 10, SetFillColor Black, DrawRightString 558 36 ''3'']]"
  by code_simp

text \<open>
  C10, amended. After any sequence of drawing and \<^verbatim>\<open>showPage\<close> calls on a new canvas: in
  \<^verbatim>\<open>create_pdf_simple.py\<close> the first page emitted by \<^verbatim>\<open>save\<close> gets neither header nor
  page number (only the empty \<^verbatim>\<open>saveState\<close>/\<^verbatim>\<open>restoreState\<close> pair), and every later page
  gets the header and \<open>Page i of N\<close> with its own number; in \<^verbatim>\<open>create_real_cap_pdf.py\<close>
  the pages are numbered 1, 2, 3, ... in emission order, page 1 gets no stamp and
  every later page is stamped with its number, so the numbers stamped are 2, 3, ...
\<close>

theorem numbered_canvas_first_page_unstamped:
  "doc_pages (save_simple (build calls Canvas_init))
     = map (\<lambda>k. st_code (saved_page_states (build calls Canvas_init) ! k)
                @ (if k = 0 then [SaveState, RestoreState]
                   else [SaveState,
                         SetFont ''Helvetica'' 8,
                         SetFillColor (HexColor ''#6B7C93''),
                         DrawString (1 * inch) (snd letter - 0.5 * inch)
                           ''Community Adaptation Program Evaluation Report'',
                         DrawRightString (fst letter - 1 * inch) (snd letter - 0.5 * inch)
                           ''September 2025'',
                         SetStrokeColor (HexColor ''#CC0000''),
                         SetLineWidth 1,
                         Line (1 * inch) (snd letter - 0.55 * inch) (fst letter - 1 * inch)
                           (snd letter - 0.55 * inch),
                         SetFont ''Helvetica'' 9,
                         SetFillColor (HexColor ''#6B7C93''),
                         DrawCentredString (fst letter / 2) (0.5 * inch)
                           (''Page '' @ str_int (1 + int k) @ '' of ''
                              @ str_int (int (count_list calls ShowPage))),
                         RestoreState]))
         [0..<count_list calls ShowPage] \<and>
   doc_pages (save_real (build calls NumberedCanvas_init_real))
     = map (\<lambda>k. st_code (saved_page_states (build calls NumberedCanvas_init_real) ! k)
                @ (if k = 0 then []
                   else [SetFont ''Times-Roman'' 10,
                         SetFillColor Black,
                         DrawRightString (fst letter - 0.75 * inch) (0.5 * inch)
                           (str_int (1 + int k))]))
         [0..<count_list calls ShowPage]"
proof (intro conjI)
  have empty: "doc_pages (build calls Canvas_init) = []"
    by (simp add: build_doc_pages Canvas_init_def)
  have len: "length (saved_page_states (build calls Canvas_init)) = count_list calls ShowPage"
    by (simp add: build_saved_length Canvas_init_def)
  have "doc_pages (save_simple (build calls Canvas_init))
     = map (\<lambda>k. st_code (saved_page_states (build calls Canvas_init) ! k)
                @ draw_page_number_simple (1 + int k) (int (count_list calls ShowPage)))
         [0..<count_list calls ShowPage]"
    unfolding save_simple_doc_pages empty len
    using map_by_index [OF build_init_saved,
        of "\<lambda>ops p. ops @ draw_page_number_simple p (int (count_list calls ShowPage))"]
    by simp
  then show "doc_pages (save_simple (build calls Canvas_init))
     = map (\<lambda>k. st_code (saved_page_states (build calls Canvas_init) ! k)
                @ (if k = 0 then [SaveState, RestoreState]
                   else [SaveState,
                         SetFont ''Helvetica'' 8,
                         SetFillColor (HexColor ''#6B7C93''),
                         DrawString (1 * inch) (snd letter - 0.5 * inch)
                           ''Community Adaptation Program Evaluation Report'',
                         DrawRightString (fst letter - 1 * inch) (snd letter - 0.5 * inch)
                           ''September 2025'',
                         SetStrokeColor (HexColor ''#CC0000''),
                         SetLineWidth 1,
                         Line (1 * inch) (snd letter - 0.55 * inch) (fst letter - 1 * inch)
                           (snd letter - 0.55 * inch),
                         SetFont ''Helvetica'' 9,
                         SetFillColor (HexColor ''#6B7C93''),
                         DrawCentredString (fst letter / 2) (0.5 * inch)
                           (''Page '' @ str_int (1 + int k) @ '' of ''
                              @ str_int (int (count_list calls ShowPage))),
                         RestoreState]))
         [0..<count_list calls ShowPage]"
    by (simp add: draw_page_number_simple_def)
next
  have empty: "doc_pages (build calls NumberedCanvas_init_real) = []"
    by (simp add: build_doc_pages NumberedCanvas_init_real_def Canvas_init_def)
  have "doc_pages (save_real (build calls NumberedCanvas_init_real))
     = map (\<lambda>k. st_code (saved_page_states (build calls NumberedCanvas_init_real) ! k)
                @ draw_page_number_real (0 + int k + 1))
         [0..<count_list calls ShowPage]"
    unfolding save_real_doc_pages empty
    using map_by_index [OF build_init_real_saved,
        of "\<lambda>ops p. ops @ draw_page_number_real (p + 1)"]
    by simp
  then show "doc_pages (save_real (build calls NumberedCanvas_init_real))
     = map (\<lambda>k. st_code (saved_page_states (build calls NumberedCanvas_init_real) ! k)
                @ (if k = 0 then []
                   else [SetFont ''Times-Roman'' 10,
                         SetFillColor Black,
                         DrawRightString (fst letter - 0.75 * inch) (0.5 * inch)
                           (str_int (1 + int k))]))
         [0..<count_list calls ShowPage]"
    by (simp add: draw_page_number_real_def add.commute)
qed

section \<open>Properties of the scripts\<close>

lemma io_seq_append:
  "io_seq (ms @ ms') =
     (case io_seq ms of
        (t, Inl x) \<Rightarrow> (t, Inl x)
      | (t, Inr u) \<Rightarrow> (case io_seq ms' of (t', r) \<Rightarrow> (t @ t', r)))"
proof (induction ms rule: io_seq.induct)
  case 1
  then show ?case by (simp split: prod.splits)
next
  case (2 t x ms)
  then show ?case by simp
next
  case (3 t u ms)
  then show ?case by (simp split: prod.splits sum.splits)
qed

lemma io_seq_performs:
  "io_seq (map (perform e) as) =
     (takeWhile (\<lambda>a. raises e a = None) as,
      case dropWhile (\<lambda>a. raises e a = None) as of
        [] \<Rightarrow> Inr ()
      | a # _ \<Rightarrow> (case raises e a of Some x \<Rightarrow> Inl x | None \<Rightarrow> Inr ()))"
proof (induction as)
  case Nil
  then show ?case by simp
next
  case (Cons a as)
  show ?case
  proof (cases "raises e a")
    case None
    with Cons show ?thesis by (simp add: perform_def)
  next
    case (Some x)
    then show ?thesis by (simp add: perform_def)
  qed
qed

lemma io_seq_performs_ok:
  assumes "\<forall>a\<in>set as. raises e a = None"
  shows "io_seq (map (perform e) as) = (as, Inr ())"
  unfolding io_seq_performs using assms by (simp add: takeWhile_all dropWhile_all)

lemma io_seq_performs_raise:
  assumes "\<exists>a\<in>set as. raises e a \<noteq> None"
  shows "\<exists>x. snd (io_seq (map (perform e) as)) = Inl x"
proof -
  from assms have "dropWhile (\<lambda>a. raises e a = None) as \<noteq> []"
    by (simp add: dropWhile_eq_Nil_conv)
  then obtain a rest where d: "dropWhile (\<lambda>a. raises e a = None) as = a # rest"
    by (cases "dropWhile (\<lambda>a. raises e a = None) as") auto
  then have "raises e a \<noteq> None"
    using hd_dropWhile [of "\<lambda>a. raises e a = None" as] by auto
  then obtain x where "raises e a = Some x" by auto
  with d show ?thesis unfolding io_seq_performs by simp
qed

lemma try_except_all_pass: "snd (try_except body (\<lambda>x. True) pass) = Inr ()"
  by (cases body; cases "snd body") (auto simp: try_except_def pass_def)

lemma io_seq_append_ok:
  assumes "io_seq ms = (t, Inr ())" and "snd (io_seq ms') = Inr ()"
  shows "snd (io_seq (ms @ ms')) = Inr ()"
  using assms unfolding io_seq_append by (cases "io_seq ms'") simp

lemma io_seq_single: "snd (io_seq [m]) = snd m"
  by (cases m; cases "snd m") auto

lemma main_create_cap_graphics_alt:
  "main_create_cap_graphics e =
     io_seq (map (perform e) cap_graphics_required
       @ [try_except
            (io_seq (map (\<lambda>n. perform e (WriteImage (graphics_dir @ ''/'' @ n @ ''.png'')))
               cap_graphics_figures))
            (\<lambda>x. True) pass])"
  by (simp add: main_create_cap_graphics_def cap_graphics_required_def comp_def)

lemma cap_graphics_best_effort:
  assumes "\<forall>a\<in>set cap_graphics_required. raises e a = None"
  shows "snd (main_create_cap_graphics e) = Inr ()"
  unfolding main_create_cap_graphics_alt
  by (rule io_seq_append_ok [OF io_seq_performs_ok [OF assms]])
    (simp only: io_seq_single try_except_all_pass)

lemma cap_graphics_propagates:
  assumes "\<exists>a\<in>set cap_graphics_required. raises e a \<noteq> None"
  shows "\<exists>x. snd (main_create_cap_graphics e) = Inl x"
proof -
  from io_seq_performs_raise [OF assms]
  obtain x where "snd (io_seq (map (perform e) cap_graphics_required)) = Inl x" ..
  then obtain t where "io_seq (map (perform e) cap_graphics_required) = (t, Inl x)"
    by (cases "io_seq (map (perform e) cap_graphics_required)") auto
  then show ?thesis
    unfolding main_create_cap_graphics_alt io_seq_append by simp
qed

lemma add_visualization_fallback:
  assumes "path_exists e viz_path" and "raises e (LoadImage viz_path) = Some x"
    and "is_Exception x"
  shows "add_visualization e story viz_path ttl description w h
    = ([], Inr (story
         @ [Paragraph ttl ''SubsectionHeader'',
            Paragraph (''[Visualization: '' @ ttl @ '']'') ''BodyText'']
         @ (if description \<noteq> [] then [Spacer 1 6, Paragraph description ''BodyText''] else [])
         @ [Spacer 1 12]))"
  using assms by (simp add: add_visualization_def)

lemma main_fortune500_pdf_exit:
  assumes "snd report = Inl x" and "is_Exception x"
  shows "snd (main_fortune500_pdf e report) = Inl (SystemExit 1)"
  using assms by (cases report) (simp add: main_fortune500_pdf_def try_except_def)

lemma main_fortune500_pdf_open:
  assumes "snd report = Inr pdf_path" and "raises e (RunOpen pdf_path) = Some CalledProcessError"
  shows "snd (main_fortune500_pdf e report) = Inr ()"
  using assms
  by (cases report) (simp add: main_fortune500_pdf_def try_except_def perform_def pass_def)

lemma export_all_visualizations_alt:
  "export_all_visualizations e =
     io_seq (map (perform e) export_required
       @ [try_except (io_seq (map (perform e) export_png)) is_Exception pass,
          create_executive_dashboard e])"
  by (simp add: export_all_visualizations_def export_required_def export_png_def comp_def
      case_prod_unfold)

lemma io_seq_ok_chain:
  assumes "io_seq ms = (t, Inr ())" and "m1 = (t1, Inr ())" and "m2 = (t2, Inr ())"
  shows "io_seq (ms @ [m1, m2]) = (t @ t1 @ t2, Inr ())"
  using assms by (simp add: io_seq_append)

lemma perform_ok: "raises e = (\<lambda>a. None) \<Longrightarrow> perform e a = ([a], Inr ())"
  by (simp add: perform_def)

lemma add_visualization_ok:
  assumes "raises e = (\<lambda>a. None)"
  shows "\<exists>story'. add_visualization e story viz_path ttl description w h
           = (if path_exists e viz_path then [LoadImage viz_path] else [], Inr story')"
  using assms by (simp add: add_visualization_def Let_def)

lemma add_visualizations_ok:
  assumes "raises e = (\<lambda>a. None)"
  shows "\<exists>t story'. add_visualizations e story specs = (t, Inr story') \<and>
           \<not> list_ex is_Chart t \<and> \<not> list_ex is_output t"
proof (induction specs arbitrary: story)
  case Nil
  then show ?case by simp
next
  case (Cons spec specs)
  obtain viz_path ttl description where spec: "spec = (viz_path, ttl, description)"
    by (cases spec) auto
  from add_visualization_ok [OF assms]
  obtain story1 where 1: "add_visualization e story viz_path ttl description (6 * inch) (4 * inch)
      = (if path_exists e viz_path then [LoadImage viz_path] else [], Inr story1)"
    by blast
  from Cons [of story1]
  obtain t story' where 2: "add_visualizations e story1 specs = (t, Inr story')"
    and 3: "\<not> list_ex is_Chart t" "\<not> list_ex is_output t"
    by blast
  show ?case
    using 1 2 3 spec by simp
qed

lemma main_create_fortune500_pdf_ok:
  assumes "raises e = (\<lambda>a. None)"
  shows "list_ex is_output (fst (main_create_fortune500_pdf e)) \<and>
         \<not> list_ex is_Chart (fst (main_create_fortune500_pdf e)) \<and>
         snd (main_create_fortune500_pdf e) = Inr ()"
proof -
  from add_visualizations_ok [OF assms]
  obtain t story' where "add_visualizations e [] report_visualizations = (t, Inr story')"
    and "\<not> list_ex is_Chart t" "\<not> list_ex is_output t"
    by blast
  then show ?thesis
    by (simp add: main_create_fortune500_pdf_def main_fortune500_pdf_def create_pdf_report_def
        perform_ok [OF assms] try_except_def pass_def)
qed

lemma figure_image_ok:
  assumes "raises e = (\<lambda>a. None)"
  shows "figure_image e f p
           = (Chart f # WriteImage p # (if path_exists e p then [LoadImage p] else []), Inr ())"
  by (simp add: figure_image_def perform_ok [OF assms])

lemma small_scripts_ok:
  assumes "raises e = (\<lambda>a. None)"
  shows "list_ex is_output (fst (main_create_pdf_simple e)) \<and>
         \<not> list_ex is_Chart (fst (main_create_pdf_simple e)) \<and>
         snd (main_create_pdf_simple e) = Inr () \<and>
         list_ex is_output (fst (main_create_real_cap_pdf e)) \<and>
         \<not> list_ex is_Chart (fst (main_create_real_cap_pdf e)) \<and>
         snd (main_create_real_cap_pdf e) = Inr ()"
  by (simp add: main_create_pdf_simple_def create_professional_pdf_simple_def
      main_create_real_cap_pdf_def perform_ok [OF assms] try_except_def)

text \<open>
  C1 as stated fails: in \<^verbatim>\<open>create_fortune500_pdf.py\<close> the failure of the PDF build is
  caught by the \<^verbatim>\<open>try\<close> of the main block, which exits with status 1.
\<close>

theorem pdf_build_failure_is_caught:
  "raises env_pdf_build_fails (BuildPdf fortune500_output_path)
     = Some (Exception ''Permission denied'') \<and>
   snd (main_create_fortune500_pdf env_pdf_build_fails) = Inl (SystemExit 1)"
  by code_simp

text \<open>
  C1, amended. \<^verbatim>\<open>create_cap_graphics.py\<close> has the best-effort \<^verbatim>\<open>try\<close> around static
  image export only: when chart construction and HTML export succeed the script ends
  normally whatever image export does, and a failure of chart construction or HTML
  export leaves the script as an exception. \<^verbatim>\<open>create_fortune500_pdf.py\<close> also wraps
  image embedding (\<^verbatim>\<open>add_visualization\<close> returns normally when \<^verbatim>\<open>Image\<close> raises an
  \<^verbatim>\<open>Exception\<close>), the PDF build (an \<^verbatim>\<open>Exception\<close> from \<^verbatim>\<open>create_pdf_report\<close> becomes exit
  status 1) and the subprocess call (\<^verbatim>\<open>CalledProcessError\<close> is swallowed).
\<close>

theorem exception_handling_sites:
  "((\<forall>a\<in>set cap_graphics_required. raises e1 a = None)
      \<longrightarrow> snd (main_create_cap_graphics e1) = Inr ()) \<and>
   ((\<exists>a\<in>set cap_graphics_required. raises e2 a \<noteq> None)
      \<longrightarrow> (\<exists>x. snd (main_create_cap_graphics e2) = Inl x)) \<and>
   (path_exists e3 viz_path \<and> raises e3 (LoadImage viz_path) = Some x3 \<and> is_Exception x3
      \<longrightarrow> (\<exists>story'. add_visualization e3 story viz_path ttl description w h = ([], Inr story'))) \<and>
   (snd report4 = Inl x4 \<and> is_Exception x4
      \<longrightarrow> snd (main_fortune500_pdf e4 report4) = Inl (SystemExit 1)) \<and>
   (snd report5 = Inr pdf_path \<and> raises e5 (RunOpen pdf_path) = Some CalledProcessError
      \<longrightarrow> snd (main_fortune500_pdf e5 report5) = Inr ())"
  using cap_graphics_best_effort [of e1] cap_graphics_propagates [of e2]
    add_visualization_fallback [of e3 viz_path x3 story ttl description w h]
    main_fortune500_pdf_exit [of report4 x4 e4]
    main_fortune500_pdf_open [of report5 pdf_path e5]
  by blast

theorem exception_handling_sites_witness:
  "snd (main_create_cap_graphics env_no_kaleido) = Inr () \<and>
   (\<exists>x. snd (main_create_cap_graphics env_html_fails) = Inl x) \<and>
   (\<exists>story'. add_visualization env_image_broken []
        ''/Users/jefffranzen/cap-data/graphics/ia_uptake.png''
        ''Immediate Assistance Uptake Rates'' ''CAP jurisdictions'' (6 * inch) (4 * inch)
      = ([], Inr story')) \<and>
   snd (main_fortune500_pdf env_ok ([], Inl (Exception ''Permission denied''))) = Inl (SystemExit 1) \<and>
   snd (main_fortune500_pdf env_open_fails ([BuildPdf fortune500_output_path], Inr fortune500_output_path))
     = Inr ()"
proof -
  have h1: "\<forall>a\<in>set cap_graphics_required. raises env_no_kaleido a = None"
    by (simp add: cap_graphics_required_def cap_graphics_figures_def env_no_kaleido_def)
  have h2: "\<exists>a\<in>set cap_graphics_required. raises env_html_fails a \<noteq> None"
    by (simp add: cap_graphics_required_def cap_graphics_figures_def env_html_fails_def)
  have h3: "path_exists env_image_broken ''/Users/jefffranzen/cap-data/graphics/ia_uptake.png'' \<and>
      raises env_image_broken (LoadImage ''/Users/jefffranzen/cap-data/graphics/ia_uptake.png'')
        = Some (Exception ''cannot identify image file'') \<and>
      is_Exception (Exception ''cannot identify image file'')"
    by (simp add: env_image_broken_def)
  have h4: "snd ([] :: action list, Inl (Exception ''Permission denied'') :: exn + string)
        = Inl (Exception ''Permission denied'') \<and> is_Exception (Exception ''Permission denied'')"
    by simp
  have h5: "snd ([BuildPdf fortune500_output_path], Inr fortune500_output_path :: exn + string)
        = Inr fortune500_output_path \<and>
      raises env_open_fails (RunOpen fortune500_output_path) = Some CalledProcessError"
    by (simp add: env_open_fails_def)
  show ?thesis
    using h1 h2 h3 h4 h5
      exception_handling_sites [of env_no_kaleido env_html_fails env_image_broken
        "''/Users/jefffranzen/cap-data/graphics/ia_uptake.png''"
        "Exception ''cannot identify image file''" "[]"
        "''Immediate Assistance Uptake Rates''" "''CAP jurisdictions''" "6 * inch" "4 * inch"
        "([], Inl (Exception ''Permission denied''))" "Exception ''Permission denied''" env_ok
        "([BuildPdf fortune500_output_path], Inr fortune500_output_path)" fortune500_output_path
        env_open_fails]
    by blast
qed

lemma add_visualization_missing:
  assumes "\<not> path_exists e viz_path"
  shows "add_visualization e story viz_path ttl description w h
    = ([], Inr (story
         @ [Paragraph ttl ''SubsectionHeader'',
            Paragraph (''[Visualization: '' @ ttl @ '' - File not found: '' @ viz_path @ '']'')
              ''BodyText'']
         @ (if description \<noteq> [] then [Spacer 1 6, Paragraph description ''BodyText''] else [])
         @ [Spacer 1 12]))"
  using assms by (simp add: add_visualization_def)

lemma try_except_performs:
  assumes "\<forall>a\<in>set as. \<forall>x. raises e a = Some x \<longrightarrow> c x"
  shows "try_except (io_seq (map (perform e) as)) c pass
    = (takeWhile (\<lambda>a. raises e a = None) as, Inr ())"
proof (cases "dropWhile (\<lambda>a. raises e a = None) as")
  case Nil
  then have t: "takeWhile (\<lambda>a. raises e a = None) as = as"
    by simp
  show ?thesis
    unfolding io_seq_performs Nil t by (simp add: try_except_def)
next
  case (Cons a rest)
  then have "a \<in> set as"
    by (metis list.set_intros(1) set_dropWhileD)
  moreover from Cons have "raises e a \<noteq> None"
    using hd_dropWhile [of "\<lambda>a. raises e a = None" as] by auto
  then obtain x where x: "raises e a = Some x"
    by auto
  ultimately have "c x"
    using assms by blast
  with Cons x show ?thesis
    unfolding io_seq_performs by (simp add: try_except_def pass_def)
qed

lemma try_except_perform:
  "try_except (perform e a) (\<lambda>x. True) pass = (if raises e a = None then [a] else [], Inr ())"
  by (cases "raises e a") (simp_all add: try_except_def perform_def pass_def)

lemma create_executive_dashboard_trace:
  assumes "raises e (WriteHtml (graphics_dir @ ''/executive_dashboard.html'')) = None"
  shows "create_executive_dashboard e
    = (WriteHtml (graphics_dir @ ''/executive_dashboard.html'')
         # (if raises e (WriteImage (graphics_dir @ ''/executive_dashboard.png'')) = None
            then [WriteImage (graphics_dir @ ''/executive_dashboard.png'')] else []),
       Inr ())"
proof -
  have "perform e (WriteHtml (graphics_dir @ ''/executive_dashboard.html''))
      = ([WriteHtml (graphics_dir @ ''/executive_dashboard.html'')], Inr ())"
    using assms by (simp add: perform_def)
  then show ?thesis
    by (simp add: create_executive_dashboard_def try_except_perform)
qed

lemma export_all_visualizations_trace:
  assumes req: "\<forall>a\<in>set export_required. raises e a = None"
    and png: "\<forall>a\<in>set export_png. \<forall>x. raises e a = Some x \<longrightarrow> is_Exception x"
    and dash: "raises e (WriteHtml (graphics_dir @ ''/executive_dashboard.html'')) = None"
  shows "export_all_visualizations e
    = (export_required @ takeWhile (\<lambda>a. raises e a = None) export_png
         @ WriteHtml (graphics_dir @ ''/executive_dashboard.html'')
         # (if raises e (WriteImage (graphics_dir @ ''/executive_dashboard.png'')) = None
            then [WriteImage (graphics_dir @ ''/executive_dashboard.png'')] else []),
       Inr ())"
  unfolding export_all_visualizations_alt
  by (rule io_seq_ok_chain [OF io_seq_performs_ok [OF req] try_except_performs [OF png]
        create_executive_dashboard_trace [OF dash]])

lemma save_figure_cool_trace:
  assumes "raises e (WriteHtml (''/Users/jefffranzen/cap-data/cool_visualizations/'' @ name @ ''.html''))
    = None"
  shows "save_figure_cool e name
    = (WriteHtml (''/Users/jefffranzen/cap-data/cool_visualizations/'' @ name @ ''.html'')
         # (if raises e (WriteImage (''/Users/jefffranzen/cap-data/cool_visualizations/'' @ name
                 @ ''.png'')) = None
            then [WriteImage (''/Users/jefffranzen/cap-data/cool_visualizations/'' @ name @ ''.png'')]
            else []),
       Inr ())"
proof -
  have "perform e (WriteHtml (''/Users/jefffranzen/cap-data/cool_visualizations/'' @ name @ ''.html''))
      = ([WriteHtml (''/Users/jefffranzen/cap-data/cool_visualizations/'' @ name @ ''.html'')],
         Inr ())"
    using assms by (simp add: perform_def)
  then show ?thesis
    by (simp add: save_figure_cool_def try_except_perform)
qed

lemma convert_one_alt:
  "convert_one e v = try_except (io_seq (map (perform e) (convert_steps v))) is_Exception pass"
proof -
  obtain name f saved_name where v: "v = (name, f, saved_name)"
    by (cases v) auto
  have "io_seq [create_20 e f saved_name, m1, m2]
      = io_seq [perform e (Chart f),
          perform e (WriteHtml (''/Users/jefffranzen/cap-data/visualizations/'' @ saved_name
            @ ''.html'')), m1, m2]" for m1 m2
    by (cases "perform e (Chart f)"; cases "snd (perform e (Chart f))";
        cases "perform e (WriteHtml (''/Users/jefffranzen/cap-data/visualizations/'' @ saved_name
            @ ''.html''))";
        cases "snd (perform e (WriteHtml (''/Users/jefffranzen/cap-data/visualizations/''
            @ saved_name @ ''.html'')))")
      (auto simp: create_20_def save_figure_20_def split: prod.splits)
  then show ?thesis
    by (simp add: v convert_one_def convert_steps_def)
qed

lemma convert_one_trace:
  assumes "\<forall>a x. raises e a = Some x \<longrightarrow> is_Exception x"
  shows "convert_one e v = (takeWhile (\<lambda>a. raises e a = None) (convert_steps v), Inr ())"
  unfolding convert_one_alt using assms by (intro try_except_performs) blast

lemma convert_loop_trace:
  assumes "\<forall>a x. raises e a = Some x \<longrightarrow> is_Exception x"
  shows "io_seq (map (convert_one e) vs)
    = (concat (map (\<lambda>v. takeWhile (\<lambda>a. raises e a = None) (convert_steps v)) vs), Inr ())"
  by (induction vs) (simp_all add: convert_one_trace [OF assms])

lemma main_create_cap_graphics_trace:
  assumes "\<forall>a\<in>set cap_graphics_required. raises e a = None"
  shows "main_create_cap_graphics e
    = (cap_graphics_required @ takeWhile (\<lambda>a. raises e a = None) cap_graphics_png, Inr ())"
proof -
  have "try_except (io_seq (map (perform e) cap_graphics_png)) (\<lambda>x. True) pass
      = (takeWhile (\<lambda>a. raises e a = None) cap_graphics_png, Inr ())"
    by (rule try_except_performs) simp
  then have "try_except
        (io_seq (map (\<lambda>n. perform e (WriteImage (graphics_dir @ ''/'' @ n @ ''.png'')))
           cap_graphics_figures))
        (\<lambda>x. True) pass
      = (takeWhile (\<lambda>a. raises e a = None) cap_graphics_png, Inr ())"
    by (simp add: cap_graphics_png_def comp_def)
  with io_seq_performs_ok [OF assms] show ?thesis
    unfolding main_create_cap_graphics_alt by (simp add: io_seq_append)
qed

text \<open>
  C6 as stated fails. Where static image export is not available, the first PNG export
  of \<^verbatim>\<open>export_all_visualizations\<close> raises; the function goes on with the executive
  dashboard and returns normally. Where the image file does not exist,
  \<^verbatim>\<open>add_visualization\<close> puts a placeholder paragraph in the place of the image and goes
  on with the description.
\<close>

theorem recovery_after_failed_export_and_missing_image:
  "raises env_no_kaleido (WriteImage (graphics_dir @ ''/roi_disaster_type.png''))
     = Some (Exception ''kaleido is not installed'') \<and>
   export_all_visualizations env_no_kaleido
     = (export_required @ [WriteHtml (graphics_dir @ ''/executive_dashboard.html'')], Inr ()) \<and>
   \<not> path_exists env_no_files ''/Users/jefffranzen/cap-data/graphics/ia_uptake.png'' \<and>
   add_visualization env_no_files []
     ''/Users/jefffranzen/cap-data/graphics/ia_uptake.png''
     ''Immediate Assistance Uptake Rates'' ''CAP jurisdictions'' (6 * inch) (4 * inch)
   = ([], Inr [Paragraph ''Immediate Assistance Uptake Rates'' ''SubsectionHeader'',
               Paragraph ''[Visualization: Immediate Assistance Uptake Rates - File not found: /Users/jefffranzen/cap-data/graphics/ia_uptake.png]'' ''BodyText'',
               Spacer 1 6,
               Paragraph ''CAP jurisdictions'' ''BodyText'',
               Spacer 1 12])"
proof (intro conjI)
  show "raises env_no_kaleido (WriteImage (graphics_dir @ ''/roi_disaster_type.png''))
     = Some (Exception ''kaleido is not installed'')"
    by (simp add: env_no_kaleido_def)
  show "export_all_visualizations env_no_kaleido
     = (export_required @ [WriteHtml (graphics_dir @ ''/executive_dashboard.html'')], Inr ())"
    by code_simp
  show "\<not> path_exists env_no_files ''/Users/jefffranzen/cap-data/graphics/ia_uptake.png''"
    by (simp add: env_no_files_def)
  show "add_visualization env_no_files []
     ''/Users/jefffranzen/cap-data/graphics/ia_uptake.png''
     ''Immediate Assistance Uptake Rates'' ''CAP jurisdictions'' (6 * inch) (4 * inch)
   = ([], Inr [Paragraph ''Immediate Assistance Uptake Rates'' ''SubsectionHeader'',
               Paragraph ''[Visualization: Immediate Assistance Uptake Rates - File not found: /Users/jefffranzen/cap-data/graphics/ia_uptake.png]'' ''BodyText'',
               Spacer 1 6,
               Paragraph ''CAP jurisdictions'' ''BodyText'',
               Spacer 1 12])"
    by (simp add: add_visualization_def env_no_files_def)
qed

text \<open>
  C6, amended. The repository has operations with failure-recovery semantics; they
  include the following.

  \<^verbatim>\<open>add_visualization\<close> (\<^verbatim>\<open>create_fortune500_pdf.py\<close>) puts a placeholder paragraph in the
  place of the image, \<open>[Visualization: title - File not found: path]\<close> when the file
  does not exist and \<open>[Visualization: title]\<close> if \<^verbatim>\<open>Image\<close> raises an \<^verbatim>\<open>Exception\<close>, and
  continues with the description and the spacer.

  \<^verbatim>\<open>export_all_visualizations\<close> (\<^verbatim>\<open>fortune500_graphics.py\<close>): when a PNG export raises an
  \<^verbatim>\<open>Exception\<close>, the PNG exports after it are skipped, and the function continues with
  the executive dashboard and returns normally; \<^verbatim>\<open>create_executive_dashboard\<close> writes
  its HTML file and ignores a failure of its PNG export.

  \<^verbatim>\<open>save_figure\<close> of \<^verbatim>\<open>create_cool_visualizations_fixed.py\<close> and
  \<^verbatim>\<open>Python/create_cool_visualizations.py\<close> writes the HTML file and ignores a failure of
  the PNG export.

  The loop of \<^verbatim>\<open>convert_to_images.py\<close> abandons a visualization at its first step that
  raises an \<^verbatim>\<open>Exception\<close> and continues with the next visualization.

  \<^verbatim>\<open>create_cap_graphics.py\<close> skips the PNG exports after one that fails and ends
  normally.

  The main block of \<^verbatim>\<open>create_fortune500_pdf.py\<close> ends normally when the \<^verbatim>\<open>open\<close>
  subprocess fails with \<^verbatim>\<open>CalledProcessError\<close> after the report is built.
\<close>

theorem failure_recovery:
  "(\<not> path_exists ea viz_path
      \<longrightarrow> add_visualization ea story viz_path ttl description w h
          = ([], Inr (story
               @ [Paragraph ttl ''SubsectionHeader'',
                  Paragraph (''[Visualization: '' @ ttl @ '' - File not found: '' @ viz_path @ '']'')
                    ''BodyText'']
               @ (if description \<noteq> [] then [Spacer 1 6, Paragraph description ''BodyText''] else [])
               @ [Spacer 1 12]))) \<and>
   (path_exists eb viz_path \<and> raises eb (LoadImage viz_path) = Some x \<and> is_Exception x
      \<longrightarrow> add_visualization eb story viz_path ttl description w h
          = ([], Inr (story
               @ [Paragraph ttl ''SubsectionHeader'',
                  Paragraph (''[Visualization: '' @ ttl @ '']'') ''BodyText'']
               @ (if description \<noteq> [] then [Spacer 1 6, Paragraph description ''BodyText''] else [])
               @ [Spacer 1 12]))) \<and>
   ((\<forall>a\<in>set export_required. raises ec a = None) \<and>
    (\<forall>a\<in>set export_png. \<forall>x. raises ec a = Some x \<longrightarrow> is_Exception x) \<and>
    raises ec (WriteHtml (graphics_dir @ ''/executive_dashboard.html'')) = None
      \<longrightarrow> export_all_visualizations ec
          = (export_required @ takeWhile (\<lambda>a. raises ec a = None) export_png
               @ WriteHtml (graphics_dir @ ''/executive_dashboard.html'')
               # (if raises ec (WriteImage (graphics_dir @ ''/executive_dashboard.png'')) = None
                  then [WriteImage (graphics_dir @ ''/executive_dashboard.png'')] else []),
             Inr ())) \<and>
   (raises ed (WriteHtml (graphics_dir @ ''/executive_dashboard.html'')) = None
      \<longrightarrow> create_executive_dashboard ed
          = (WriteHtml (graphics_dir @ ''/executive_dashboard.html'')
               # (if raises ed (WriteImage (graphics_dir @ ''/executive_dashboard.png'')) = None
                  then [WriteImage (graphics_dir @ ''/executive_dashboard.png'')] else []),
             Inr ())) \<and>
   (raises ef (WriteHtml (''/Users/jefffranzen/cap-data/cool_visualizations/'' @ name @ ''.html''))
      = None
      \<longrightarrow> save_figure_cool ef name
          = (WriteHtml (''/Users/jefffranzen/cap-data/cool_visualizations/'' @ name @ ''.html'')
               # (if raises ef (WriteImage (''/Users/jefffranzen/cap-data/cool_visualizations/''
                       @ name @ ''.png'')) = None
                  then [WriteImage (''/Users/jefffranzen/cap-data/cool_visualizations/'' @ name
                          @ ''.png'')]
                  else []),
             Inr ())) \<and>
   ((\<forall>a x. raises eg a = Some x \<longrightarrow> is_Exception x)
      \<longrightarrow> io_seq (map (convert_one eg) vs)
          = (concat (map (\<lambda>v. takeWhile (\<lambda>a. raises eg a = None) (convert_steps v)) vs),
             Inr ())) \<and>
   ((\<forall>a\<in>set cap_graphics_required. raises eh a = None)
      \<longrightarrow> main_create_cap_graphics eh
          = (cap_graphics_required @ takeWhile (\<lambda>a. raises eh a = None) cap_graphics_png,
             Inr ())) \<and>
   (snd report = Inr pdf_path \<and> raises ei (RunOpen pdf_path) = Some CalledProcessError
      \<longrightarrow> snd (main_fortune500_pdf ei report) = Inr ())"
  using add_visualization_missing [of ea viz_path story ttl description w h]
    add_visualization_fallback [of eb viz_path x story ttl description w h]
    export_all_visualizations_trace [of ec]
    create_executive_dashboard_trace [of ed]
    save_figure_cool_trace [of ef name]
    convert_loop_trace [of eg vs]
    main_create_cap_graphics_trace [of eh]
    main_fortune500_pdf_open [of report pdf_path ei]
  by blast

theorem failure_recovery_witness:
  "add_visualization env_no_files []
     ''/Users/jefffranzen/cap-data/graphics/speed_advantage.png''
     ''Response Speed Advantage'' [] (6 * inch) (4 * inch)
     = ([], Inr [Paragraph ''Response Speed Advantage'' ''SubsectionHeader'',
                 Paragraph ''[Visualization: Response Speed Advantage - File not found: /Users/jefffranzen/cap-data/graphics/speed_advantage.png]'' ''BodyText'',
                 Spacer 1 12]) \<and>
   add_visualization env_image_broken []
     ''/Users/jefffranzen/cap-data/graphics/speed_advantage.png''
     ''Response Speed Advantage'' [] (6 * inch) (4 * inch)
     = ([], Inr [Paragraph ''Response Speed Advantage'' ''SubsectionHeader'',
                 Paragraph ''[Visualization: Response Speed Advantage]'' ''BodyText'',
                 Spacer 1 12]) \<and>
   export_all_visualizations env_no_kaleido
     = (export_required @ [WriteHtml (graphics_dir @ ''/executive_dashboard.html'')], Inr ()) \<and>
   create_executive_dashboard env_no_kaleido
     = ([WriteHtml (graphics_dir @ ''/executive_dashboard.html'')], Inr ()) \<and>
   save_figure_cool env_no_kaleido ''funnel_pipeline''
     = ([WriteHtml ''/Users/jefffranzen/cap-data/cool_visualizations/funnel_pipeline.html''],
        Inr ()) \<and>
   io_seq (map (convert_one env_no_kaleido)
       [(''roi_by_disaster'', ''create_roi_by_disaster'', ''roi_by_disaster''),
        (''roi_by_partner'', ''create_roi_by_partner'', ''roi_partner_waterfall'')])
     = ([Chart ''create_roi_by_disaster'',
         WriteHtml ''/Users/jefffranzen/cap-data/visualizations/roi_by_disaster.html'',
         Chart ''create_roi_by_partner'',
         WriteHtml ''/Users/jefffranzen/cap-data/visualizations/roi_partner_waterfall.html''],
        Inr ()) \<and>
   main_create_cap_graphics env_no_kaleido = (cap_graphics_required, Inr ()) \<and>
   snd (main_fortune500_pdf env_open_fails
          ([BuildPdf fortune500_output_path], Inr fortune500_output_path))
     = Inr ()"
proof -
  let ?p = "''/Users/jefffranzen/cap-data/graphics/speed_advantage.png''"
  let ?vs = "[(''roi_by_disaster'', ''create_roi_by_disaster'', ''roi_by_disaster''),
        (''roi_by_partner'', ''create_roi_by_partner'', ''roi_partner_waterfall'')]"
  have h1: "\<not> path_exists env_no_files ?p"
    by (simp add: env_no_files_def)
  have h2: "path_exists env_image_broken ?p \<and>
      raises env_image_broken (LoadImage ?p) = Some (Exception ''cannot identify image file'') \<and>
      is_Exception (Exception ''cannot identify image file'')"
    by (simp add: env_image_broken_def)
  have h3: "\<forall>a\<in>set export_required. raises env_no_kaleido a = None"
    by (simp add: export_required_def fortune500_charts_def env_no_kaleido_def)
  have h4: "\<forall>a\<in>set export_png. \<forall>x. raises env_no_kaleido a = Some x \<longrightarrow> is_Exception x"
    by (simp add: export_png_def fortune500_charts_def env_no_kaleido_def)
  have h5: "raises env_no_kaleido (WriteHtml p) = None" for p
    by (simp add: env_no_kaleido_def)
  have h6: "\<forall>a x. raises env_no_kaleido a = Some x \<longrightarrow> is_Exception x"
    by (auto simp: env_no_kaleido_def split: action.splits)
  have h7: "\<forall>a\<in>set cap_graphics_required. raises env_no_kaleido a = None"
    by (simp add: cap_graphics_required_def cap_graphics_figures_def env_no_kaleido_def)
  have h8: "snd ([BuildPdf fortune500_output_path], Inr fortune500_output_path :: exn + string)
        = Inr fortune500_output_path \<and>
      raises env_open_fails (RunOpen fortune500_output_path) = Some CalledProcessError"
    by (simp add: env_open_fails_def)
  have t1: "takeWhile (\<lambda>a. raises env_no_kaleido a = None) export_png = []"
    by (simp add: export_png_def fortune500_charts_def env_no_kaleido_def)
  have t2: "raises env_no_kaleido (WriteImage p) \<noteq> None" for p
    by (simp add: env_no_kaleido_def)
  have t3: "concat (map (\<lambda>v. takeWhile (\<lambda>a. raises env_no_kaleido a = None) (convert_steps v)) ?vs)
      = [Chart ''create_roi_by_disaster'',
         WriteHtml ''/Users/jefffranzen/cap-data/visualizations/roi_by_disaster.html'',
         Chart ''create_roi_by_partner'',
         WriteHtml ''/Users/jefffranzen/cap-data/visualizations/roi_partner_waterfall.html'']"
    by (simp add: convert_steps_def env_no_kaleido_def)
  have t4: "takeWhile (\<lambda>a. raises env_no_kaleido a = None) cap_graphics_png = []"
    by (simp add: cap_graphics_png_def cap_graphics_figures_def env_no_kaleido_def)
  note inst = failure_recovery [where ea = env_no_files and eb = env_image_broken
      and ec = env_no_kaleido and ed = env_no_kaleido and ef = env_no_kaleido
      and eg = env_no_kaleido and eh = env_no_kaleido and ei = env_open_fails
      and report = "([BuildPdf fortune500_output_path], Inr fortune500_output_path)"
      and pdf_path = fortune500_output_path
      and viz_path = "?p" and x = "Exception ''cannot identify image file''"
      and story = "[]" and ttl = "''Response Speed Advantage''" and description = "[]"
      and w = "6 * inch" and h = "4 * inch" and name = "''funnel_pipeline''" and vs = "?vs"]
  show ?thesis
    using inst h1 h2 h3 h4 h5 h6 h7 h8 unfolding t1 t3 t4 by (simp add: t2)
qed

section \<open>Properties of the charts\<close>

lemma add_noise_snd: "snd (add_noise s xs g) = (\<lambda>n. g (n + length xs))"
proof (induction xs arbitrary: g)
  case Nil
  then show ?case by simp
next
  case (Cons r rs)
  have "snd (add_noise s (r # rs) g) = snd (add_noise s rs (\<lambda>n. g (Suc n)))"
    by (simp add: random_normal_def split: prod.splits)
  also have "\<dots> = (\<lambda>n. g (Suc (n + length rs)))"
    by (rule Cons)
  finally show ?case by simp
qed

lemma scatter_lengths:
  "length scatter_roi = 30" "length scatter_speed = 30" "length scatter_quality = 30"
  by (simp_all add: scatter_roi_def scatter_speed_def scatter_quality_def eval_nat_numeral)





lemma create_3d_scatter_fst:
  "fst (create_3d_scatter g)
     = scatter3d_figure scatter_partners
         (fst (add_noise 2 scatter_roi g))
         (fst (add_noise 3 scatter_speed (\<lambda>n. g (n + 30))))
         (fst (add_noise 2 scatter_quality (\<lambda>n. g (n + 60))))"
proof -
  have 1: "snd (add_noise 2 scatter_roi g) = (\<lambda>n. g (n + 30))"
    by (simp add: add_noise_snd scatter_lengths)
  have 2: "snd (add_noise 3 scatter_speed (\<lambda>n. g (n + 30))) = (\<lambda>n. g (n + 60))"
    by (simp add: add_noise_snd scatter_lengths add.commute)
  show ?thesis
    by (simp add: create_3d_scatter_def case_prod_beta 1 2)
qed







text \<open>
  C2 as stated fails. \<^verbatim>\<open>create_cost_breakdown\<close> of \<^verbatim>\<open>create_cap_graphics.py\<close> applies the
  blue \<open>#1E40AF\<close>, which is neither red, gray, white nor black and is in no table of
  \<^verbatim>\<open>create_20_visualizations.py\<close> or \<^verbatim>\<open>fortune500_graphics.py\<close>; \<^verbatim>\<open>create_3d_scatter\<close>
  applies \<open>#FC8181\<close>, which is not among the constants of its own script; and the table
  of \<^verbatim>\<open>create_cap_graphics.py\<close> differs from those of \<^verbatim>\<open>fortune500_graphics.py\<close> and
  \<^verbatim>\<open>convert_to_images.py\<close>.
\<close>

theorem palette_differs_between_scripts:
  "''#1E40AF'' \<in> set (figure_colors (fst (create_cost_breakdown rng_calm))) \<and>
   ''#1E40AF'' \<notin> set create_20_visualizations_colors \<and>
   ''#1E40AF'' \<notin> set (map snd ARC_COLORS) \<and>
   ''#FC8181'' \<in> set (figure_colors (fst (create_3d_scatter rng_calm))) \<and>
   ''#FC8181'' \<notin> set create_cool_visualizations_fixed_colors \<and>
   set (map snd cap_colors) \<noteq> set (map snd ARC_COLORS) \<and>
   set (map snd cap_colors) \<noteq> set convert_to_images_colors"
proof (intro conjI)
  show "''#1E40AF'' \<in> set (figure_colors (fst (create_cost_breakdown rng_calm)))"
    by code_simp
  show "''#1E40AF'' \<notin> set create_20_visualizations_colors"
    by code_simp
  show "''#1E40AF'' \<notin> set (map snd ARC_COLORS)"
    by code_simp
  show "''#FC8181'' \<in> set (figure_colors (fst (create_3d_scatter rng_calm)))"
    unfolding create_3d_scatter_fst
    by (simp add: scatter3d_figure_def figure_colors_def go_Scatter3d_def comp_def)
  show "''#FC8181'' \<notin> set create_cool_visualizations_fixed_colors"
    by code_simp
  show "set (map snd cap_colors) \<noteq> set (map snd ARC_COLORS)"
    by code_simp
  show "set (map snd cap_colors) \<noteq> set convert_to_images_colors"
    by code_simp
qed

text \<open>
  C2, amended. The colours are not one set of red, gray, white and black shared by all
  scripts; the scripts define different tables of hex colour constants, and chart
  functions pass colours outside them.

  The tables. \<^verbatim>\<open>cap_colors\<close> (\<^verbatim>\<open>create_cap_graphics.py\<close>): red \<open>#ED1B2E\<close>, gray \<open>#6B7280\<close>,
  blue, green, orange. \<^verbatim>\<open>ARC_COLORS\<close> (\<^verbatim>\<open>fortune500_graphics.py\<close>): red \<open>#CC0000\<close>, gray
  \<open>#6B7C93\<close>, white, black, two blues, green, orange. \<^verbatim>\<open>convert_to_images.py\<close> and
  \<^verbatim>\<open>create_cool_visualizations_fixed.py\<close>: \<^verbatim>\<open>ARC_RED\<close>, \<^verbatim>\<open>ARC_GRAY\<close>, \<^verbatim>\<open>ARC_DARK_GRAY\<close>,
  \<^verbatim>\<open>ARC_LIGHT_GRAY\<close>; \<^verbatim>\<open>Python/create_20_visualizations.py\<close>: these four, \<^verbatim>\<open>ARC_BLACK\<close> and
  \<^verbatim>\<open>ARC_WHITE\<close>. Red, gray, white and black of \<^verbatim>\<open>ARC_COLORS\<close> are \<^verbatim>\<open>ARC_RED\<close>, \<^verbatim>\<open>ARC_GRAY\<close>,
  \<^verbatim>\<open>ARC_WHITE\<close> and \<^verbatim>\<open>ARC_BLACK\<close>; the red and the gray of \<^verbatim>\<open>cap_colors\<close> are different, and
  \<^verbatim>\<open>cap_colors\<close> shares only green and orange with \<^verbatim>\<open>ARC_COLORS\<close>.

  The colour strings three chart functions pass to Plotly, whatever the state of the
  random generator. \<^verbatim>\<open>create_cost_breakdown\<close> (\<^verbatim>\<open>create_cap_graphics.py\<close>): the five colours
  of \<^verbatim>\<open>cap_colors\<close> and \<open>white\<close>. \<^verbatim>\<open>create_roi_by_disaster\<close>
  (\<^verbatim>\<open>Python/create_20_visualizations.py\<close>): \<^verbatim>\<open>ARC_RED\<close>, \<^verbatim>\<open>ARC_GRAY\<close>, \<^verbatim>\<open>ARC_BLACK\<close>,
  \<^verbatim>\<open>ARC_WHITE\<close> and \<^verbatim>\<open>ARC_LIGHT_GRAY\<close>, all constants of its script. \<^verbatim>\<open>create_3d_scatter\<close>
  (\<^verbatim>\<open>create_cool_visualizations_fixed.py\<close>): \<^verbatim>\<open>ARC_GRAY\<close>, \<^verbatim>\<open>ARC_RED\<close>, the literal
  \<open>#FC8181\<close> and the CSS names \<open>white\<close> and \<open>lightgray\<close>.
\<close>

theorem chart_colors_from_script_tables:
  "set (map snd cap_colors) = {''#ED1B2E'', ''#6B7280'', ''#1E40AF'', ''#059669'', ''#D97706''} \<and>
   set (map snd ARC_COLORS)
     = {''#CC0000'', ''#6B7C93'', ''#FFFFFF'', ''#000000'', ''#E6F3FF'', ''#2C5282'', ''#059669'',
        ''#D97706''} \<and>
   convert_to_images_colors = [''#CC0000'', ''#6B7C93'', ''#4A5568'', ''#E2E8F0''] \<and>
   create_cool_visualizations_fixed_colors = convert_to_images_colors \<and>
   create_20_visualizations_colors = convert_to_images_colors @ [''#000000'', ''#FFFFFF''] \<and>
   lookup ARC_COLORS ''primary'' = ARC_RED \<and>
   lookup ARC_COLORS ''secondary'' = ARC_GRAY \<and>
   lookup ARC_COLORS ''background'' = ARC_WHITE \<and>
   lookup ARC_COLORS ''text'' = ARC_BLACK \<and>
   lookup cap_colors ''primary'' \<noteq> ARC_RED \<and>
   lookup cap_colors ''secondary'' \<noteq> ARC_GRAY \<and>
   set (map snd cap_colors) \<inter> set (map snd ARC_COLORS) = {''#059669'', ''#D97706''} \<and>
   set (figure_colors (fst (create_cost_breakdown g))) = set (map snd cap_colors) \<union> {''white''} \<and>
   set (figure_colors (fst (create_roi_by_disaster g)))
     = {ARC_RED, ARC_GRAY, ARC_BLACK, ARC_WHITE, ARC_LIGHT_GRAY} \<and>
   set (figure_colors (fst (create_roi_by_disaster g))) \<subseteq> set create_20_visualizations_colors \<and>
   set (figure_colors (fst (create_3d_scatter g)))
     = {ARC_GRAY, ARC_RED, ''#FC8181'', ''white'', ''lightgray''}"
proof (intro conjI)
  show "set (map snd cap_colors) = {''#ED1B2E'', ''#6B7280'', ''#1E40AF'', ''#059669'', ''#D97706''}"
    by code_simp
  show "set (map snd ARC_COLORS)
     = {''#CC0000'', ''#6B7C93'', ''#FFFFFF'', ''#000000'', ''#E6F3FF'', ''#2C5282'', ''#059669'',
        ''#D97706''}"
    by code_simp
  show "convert_to_images_colors = [''#CC0000'', ''#6B7C93'', ''#4A5568'', ''#E2E8F0'']"
    by code_simp
  show "create_cool_visualizations_fixed_colors = convert_to_images_colors"
    by code_simp
  show "create_20_visualizations_colors = convert_to_images_colors @ [''#000000'', ''#FFFFFF'']"
    by code_simp
  show "lookup ARC_COLORS ''primary'' = ARC_RED" by code_simp
  show "lookup ARC_COLORS ''secondary'' = ARC_GRAY" by code_simp
  show "lookup ARC_COLORS ''background'' = ARC_WHITE" by code_simp
  show "lookup ARC_COLORS ''text'' = ARC_BLACK" by code_simp
  show "lookup cap_colors ''primary'' \<noteq> ARC_RED" by code_simp
  show "lookup cap_colors ''secondary'' \<noteq> ARC_GRAY" by code_simp
  show "set (map snd cap_colors) \<inter> set (map snd ARC_COLORS) = {''#059669'', ''#D97706''}"
    by code_simp
  show "set (figure_colors (fst (create_cost_breakdown g))) = set (map snd cap_colors) \<union> {''white''}"
    by (auto simp: create_cost_breakdown_def figure_colors_def go_Pie_def lookup_def cap_colors_def)
  show "set (figure_colors (fst (create_roi_by_disaster g)))
     = {ARC_RED, ARC_GRAY, ARC_BLACK, ARC_WHITE, ARC_LIGHT_GRAY}"
    by (auto simp: create_roi_by_disaster_def figure_colors_def go_Bar_def)
  show "set (figure_colors (fst (create_roi_by_disaster g))) \<subseteq> set create_20_visualizations_colors"
    by (simp add: create_roi_by_disaster_def figure_colors_def go_Bar_def
        create_20_visualizations_colors_def)
  show "set (figure_colors (fst (create_3d_scatter g)))
     = {ARC_GRAY, ARC_RED, ''#FC8181'', ''white'', ''lightgray''}"
    unfolding create_3d_scatter_fst
    by (auto simp: scatter3d_figure_def figure_colors_def go_Scatter3d_def comp_def)
qed

section \<open>Properties of the scripts' data and styling\<close>

lemma cap_graphics_pattern:
  assumes "raises e = (\<lambda>a. None)"
  shows "list_ex is_output (fst (main_create_cap_graphics e)) \<and>
    snd (main_create_cap_graphics e) = Inr () \<and>
    Chart ''create_cost_breakdown'' \<in> set (fst (main_create_cap_graphics e))"
  by (simp add: main_create_cap_graphics_def cap_graphics_figures_def perform_ok [OF assms]
      try_except_def)

lemma convert_to_images_pattern:
  assumes "raises e = (\<lambda>a. None)"
  shows "list_ex is_output (fst (main_convert_to_images e)) \<and>
    snd (main_convert_to_images e) = Inr () \<and>
    Chart ''create_roi_by_disaster'' \<in> set (fst (main_convert_to_images e))"
  by (simp add: main_convert_to_images_def convert_one_def create_20_def save_figure_20_def
      viz_functions_def perform_ok [OF assms] try_except_def)

lemma cool_fixed_pattern:
  assumes "raises e = (\<lambda>a. None)"
  shows "list_ex is_output (fst (main_create_cool_visualizations_fixed e)) \<and>
    snd (main_create_cool_visualizations_fixed e) = Inr () \<and>
    Chart ''create_3d_scatter'' \<in> set (fst (main_create_cool_visualizations_fixed e))"
  by (simp add: main_create_cool_visualizations_fixed_def create_cool_def save_figure_cool_def
      visualizations_cool_fixed_def perform_ok [OF assms] try_except_def)

lemma cool_pattern:
  assumes "raises e = (\<lambda>a. None)"
  shows "list_ex is_output (fst (main_create_cool_visualizations e)) \<and>
    snd (main_create_cool_visualizations e) = Inr () \<and>
    Chart ''create_funnel_pipeline'' \<in> set (fst (main_create_cool_visualizations e))"
  by (simp add: main_create_cool_visualizations_def create_cool_def save_figure_cool_def
      visualizations_cool_def perform_ok [OF assms] try_except_def)

lemma create_20_pattern:
  assumes "raises e = (\<lambda>a. None)"
  shows "list_ex is_output (fst (main_create_20_visualizations e)) \<and>
    snd (main_create_20_visualizations e) = Inr () \<and>
    Chart ''create_roi_by_disaster'' \<in> set (fst (main_create_20_visualizations e))"
  by (simp add: main_create_20_visualizations_def create_20_def save_figure_20_def
      visualizations_20_def perform_ok [OF assms])

lemma fortune500_graphics_pattern:
  assumes "raises e = (\<lambda>a. None)"
  shows "list_ex is_output (fst (main_fortune500_graphics e)) \<and>
    snd (main_fortune500_graphics e) = Inr () \<and>
    Chart ''create_cost_containment_donut'' \<in> set (fst (main_fortune500_graphics e))"
  by (simp add: main_fortune500_graphics_def export_all_visualizations_def
      create_executive_dashboard_def fortune500_charts_def perform_ok [OF assms] try_except_def)

lemma professional_pdf_pattern:
  assumes "raises e = (\<lambda>a. None)"
  shows "list_ex is_output (fst (main_create_professional_pdf e)) \<and>
    snd (main_create_professional_pdf e) = Inr () \<and>
    Chart ''create_cost_breakdown'' \<in> set (fst (main_create_professional_pdf e))"
  by (simp add: main_create_professional_pdf_def figure_image_ok [OF assms] perform_ok [OF assms])

lemma create_cost_breakdown_data:
  "trace_data (fst (create_cost_breakdown g)) ''values''
     = [Some (Seq (map Num [670000, 380000, 220000, 186305, 150000]))] \<and>
   lookup cap_colors ''primary'' \<in> set (figure_colors (fst (create_cost_breakdown g)))"
  by (simp add: create_cost_breakdown_def trace_data_def figure_colors_def go_Pie_def)

lemma create_roi_by_disaster_data:
  "trace_data (fst (create_roi_by_disaster g)) ''x'' = [Some (Seq (map Num [37.30, 25.53, 9.77]))] \<and>
   ARC_RED \<in> set (figure_colors (fst (create_roi_by_disaster g)))"
  by (simp add: create_roi_by_disaster_def trace_data_def figure_colors_def go_Bar_def)

lemma create_3d_scatter_data:
  "trace_data (fst (create_3d_scatter g)) ''text'' = [Some (Seq (map Str scatter_partners))] \<and>
   ARC_RED \<in> set (figure_colors (fst (create_3d_scatter g)))"
  unfolding create_3d_scatter_fst
  by (simp add: scatter3d_figure_def trace_data_def figure_colors_def go_Scatter3d_def comp_def)

lemma create_funnel_pipeline_data:
  "trace_data (fst (create_funnel_pipeline g)) ''x''
     = [Some (Seq (map Num [10000, 8500, 7200, 6500, 5800, 5200]))] \<and>
   ARC_RED \<in> set (figure_colors (fst (create_funnel_pipeline g)))"
  by (simp add: create_funnel_pipeline_def trace_data_def figure_colors_def go_Funnel_def)

lemma create_cost_containment_donut_data:
  "trace_data (fst (create_cost_containment_donut g)) ''values''
     = [Some (Seq (map Num [670000, 380000, 220000, 186305, 150000]))] \<and>
   lookup ARC_COLORS ''primary'' \<in> set (figure_colors (fst (create_cost_containment_donut g)))"
  by (simp add: create_cost_containment_donut_def setup_professional_layout_def trace_data_def
      figure_colors_def go_Pie_def)

lemma roi_table_data:
  "table_data roi_table
     = [[''Return on Investment by Partner Type''],
        [''Resilience Hubs'', ''33.48%''],
        [''Community Gateways'', ''30.11%''],
        [''Hunger Partners'', ''26.33%''],
        [''Overall Program ROI'', ''28.30%'']] \<and>
   HexColor ''#CC0000'' \<in> set (table_colors roi_table)"
  by (simp add: roi_table_def create_data_table_def table_colors_def)

lemma append_viz_list_data:
  "append_viz_list elements
     = elements @ map (\<lambda>viz. Paragraph (bullet_prefix @ viz) ''BulletStyle'') viz_list \<and>
   length viz_list = 8 \<and>
   hd viz_list = ''1. Return on Investment by Disaster Type (37.3% for hurricanes)''"
  by (simp add: append_viz_list_def viz_list_def)

lemma append_metrics_data:
  "append_metrics story
     = story
       @ [Paragraph ''<b>Quality Enhancement</b><br/>93% IA completion rate in CAP parishes vs. 67% overall''
            ''MetricBox'',
          Spacer 1 6,
          Paragraph ''<b>Cost Containment</b><br/>$1.6M+ total savings with 28.3% ROI on investments''
            ''MetricBox'',
          Spacer 1 6,
          Paragraph ''<b>Response Speed</b><br/>1-4 days faster service delivery in most disaster operations''
            ''MetricBox'',
          Spacer 1 6,
          Paragraph ''<b>Community Impact</b><br/>35.9% increase in volunteer engagement, 66.2% increase in homes made safer''
            ''MetricBox'',
          Spacer 1 6]"
  by (simp add: append_metrics_def metrics_def)

lemma page_number_colors:
  "HexColor ''#CC0000'' \<in> set (canvas_colors (draw_page_number_professional now k n)) \<and>
   HexColor ''#CC0000'' \<in> set (canvas_colors (draw_page_number_simple 2 n)) \<and>
   canvas_colors (draw_page_number_real 2) = [Black] \<and>
   HexColor ''#CC0000'' \<in> set (canvas_colors (draw_page_number_fortune500 2 n))"
  by (simp add: canvas_colors_def draw_page_number_professional_def draw_page_number_simple_def
      draw_page_number_real_def draw_page_number_fortune500_def)

text \<open>
  C7 as stated fails. \<^verbatim>\<open>create_pdf_simple.py\<close>, run where nothing fails, reads the report
  text and builds the PDF; it calls no chart-construction function. And where the
  kaleido scope is missing, \<^verbatim>\<open>convert_to_images.py\<close> ends with the exception of its first
  statement and writes no file.
\<close>

theorem scripts_off_pattern:
  "fst (main_create_pdf_simple env_ok)
     = [ReadText report_text_path,
        BuildPdf ''/Users/jefffranzen/cap-data/CAP_Evaluation_Report_Professional.pdf''] \<and>
   \<not> list_ex is_Chart (fst (main_create_pdf_simple env_ok)) \<and>
   raises env_no_scope (SetAttr ''pio.kaleido.scope.mathjax'') = Some (Exception ''AttributeError'') \<and>
   main_convert_to_images env_no_scope = ([], Inl (Exception ''AttributeError''))"
  by code_simp

text \<open>
  C7, amended. Run where none of its operations fails, every script ends normally,
  writes at least one output file (HTML, image or PDF), defines literal data arrays
  and applies brand-colour styling; seven scripts call chart-construction functions,
  and \<^verbatim>\<open>create_pdf_simple\<close>, \<^verbatim>\<open>create_real_cap_pdf\<close> and \<^verbatim>\<open>create_fortune500_pdf\<close> call
  none. For each script, the statement names a chart function it calls or a part of the
  document it builds, with literal data in it and a brand colour applied to it:

  \<^item> \<^verbatim>\<open>create_cap_graphics\<close> and \<^verbatim>\<open>create_professional_pdf\<close> call
    \<^verbatim>\<open>create_cost_breakdown\<close>, which plots a literal list of values and applies the red
    of \<^verbatim>\<open>cap_colors\<close>; the page header of \<^verbatim>\<open>create_professional_pdf\<close> is ruled in red
    \<open>#CC0000\<close>;
  \<^item> \<^verbatim>\<open>convert_to_images\<close> and \<^verbatim>\<open>create_20_visualizations\<close> call
    \<^verbatim>\<open>create_roi_by_disaster\<close>, which plots a literal list and applies \<^verbatim>\<open>ARC_RED\<close>;
  \<^item> \<^verbatim>\<open>create_cool_visualizations_fixed\<close> calls \<^verbatim>\<open>create_3d_scatter\<close>, which labels its
    points with a literal list and applies \<^verbatim>\<open>ARC_RED\<close>;
  \<^item> \<^verbatim>\<open>create_cool_visualizations\<close> calls \<^verbatim>\<open>create_funnel_pipeline\<close>, which plots a
    literal list and applies \<^verbatim>\<open>ARC_RED\<close>;
  \<^item> \<^verbatim>\<open>fortune500_graphics\<close> calls \<^verbatim>\<open>create_cost_containment_donut\<close>, which plots a
    literal list and applies the red of \<^verbatim>\<open>ARC_COLORS\<close>;
  \<^item> \<^verbatim>\<open>create_pdf_simple\<close> builds a table from literal rows, with the header row in red
    \<open>#CC0000\<close>;
  \<^item> \<^verbatim>\<open>create_real_cap_pdf\<close> appends one bullet paragraph per entry of the literal
    list \<^verbatim>\<open>viz_list\<close> and stamps its page numbers in black, the only colour it
    applies there;
  \<^item> \<^verbatim>\<open>create_fortune500_pdf\<close> appends a paragraph per entry of the literal list
    \<^verbatim>\<open>metrics\<close> and rules its page header in red \<open>#CC0000\<close>.
\<close>

theorem scripts_follow_pattern:
  assumes "raises e = (\<lambda>a. None)"
  shows
  "(list_ex is_output (fst (main_create_cap_graphics e)) \<and>
    snd (main_create_cap_graphics e) = Inr () \<and>
    Chart ''create_cost_breakdown'' \<in> set (fst (main_create_cap_graphics e))) \<and>
   (list_ex is_output (fst (main_create_professional_pdf e)) \<and>
    snd (main_create_professional_pdf e) = Inr () \<and>
    Chart ''create_cost_breakdown'' \<in> set (fst (main_create_professional_pdf e))) \<and>
   (trace_data (fst (create_cost_breakdown g)) ''values''
      = [Some (Seq (map Num [670000, 380000, 220000, 186305, 150000]))] \<and>
    lookup cap_colors ''primary'' \<in> set (figure_colors (fst (create_cost_breakdown g)))) \<and>
   (list_ex is_output (fst (main_convert_to_images e)) \<and>
    snd (main_convert_to_images e) = Inr () \<and>
    Chart ''create_roi_by_disaster'' \<in> set (fst (main_convert_to_images e))) \<and>
   (list_ex is_output (fst (main_create_20_visualizations e)) \<and>
    snd (main_create_20_visualizations e) = Inr () \<and>
    Chart ''create_roi_by_disaster'' \<in> set (fst (main_create_20_visualizations e))) \<and>
   (trace_data (fst (create_roi_by_disaster g)) ''x'' = [Some (Seq (map Num [37.30, 25.53, 9.77]))] \<and>
    ARC_RED \<in> set (figure_colors (fst (create_roi_by_disaster g)))) \<and>
   (list_ex is_output (fst (main_create_cool_visualizations_fixed e)) \<and>
    snd (main_create_cool_visualizations_fixed e) = Inr () \<and>
    Chart ''create_3d_scatter'' \<in> set (fst (main_create_cool_visualizations_fixed e))) \<and>
   (trace_data (fst (create_3d_scatter g)) ''text'' = [Some (Seq (map Str scatter_partners))] \<and>
    ARC_RED \<in> set (figure_colors (fst (create_3d_scatter g)))) \<and>
   (list_ex is_output (fst (main_create_cool_visualizations e)) \<and>
    snd (main_create_cool_visualizations e) = Inr () \<and>
    Chart ''create_funnel_pipeline'' \<in> set (fst (main_create_cool_visualizations e))) \<and>
   (trace_data (fst (create_funnel_pipeline g)) ''x''
      = [Some (Seq (map Num [10000, 8500, 7200, 6500, 5800, 5200]))] \<and>
    ARC_RED \<in> set (figure_colors (fst (create_funnel_pipeline g)))) \<and>
   (list_ex is_output (fst (main_fortune500_graphics e)) \<and>
    snd (main_fortune500_graphics e) = Inr () \<and>
    Chart ''create_cost_containment_donut'' \<in> set (fst (main_fortune500_graphics e))) \<and>
   (trace_data (fst (create_cost_containment_donut g)) ''values''
      = [Some (Seq (map Num [670000, 380000, 220000, 186305, 150000]))] \<and>
    lookup ARC_COLORS ''primary'' \<in> set (figure_colors (fst (create_cost_containment_donut g)))) \<and>
   (list_ex is_output (fst (main_create_pdf_simple e)) \<and>
    \<not> list_ex is_Chart (fst (main_create_pdf_simple e)) \<and>
    snd (main_create_pdf_simple e) = Inr () \<and>
    list_ex is_output (fst (main_create_real_cap_pdf e)) \<and>
    \<not> list_ex is_Chart (fst (main_create_real_cap_pdf e)) \<and>
    snd (main_create_real_cap_pdf e) = Inr ()) \<and>
   (list_ex is_output (fst (main_create_fortune500_pdf e)) \<and>
    \<not> list_ex is_Chart (fst (main_create_fortune500_pdf e)) \<and>
    snd (main_create_fortune500_pdf e) = Inr ()) \<and>
   (table_data roi_table
      = [[''Return on Investment by Partner Type''],
         [''Resilience Hubs'', ''33.48%''],
         [''Community Gateways'', ''30.11%''],
         [''Hunger Partners'', ''26.33%''],
         [''Overall Program ROI'', ''28.30%'']] \<and>
    HexColor ''#CC0000'' \<in> set (table_colors roi_table)) \<and>
   (append_viz_list elements
      = elements @ map (\<lambda>viz. Paragraph (bullet_prefix @ viz) ''BulletStyle'') viz_list \<and>
    length viz_list = 8 \<and>
    hd viz_list = ''1. Return on Investment by Disaster Type (37.3% for hurricanes)'') \<and>
   append_metrics story
     = story
       @ [Paragraph ''<b>Quality Enhancement</b><br/>93% IA completion rate in CAP parishes vs. 67% overall''
            ''MetricBox'',
          Spacer 1 6,
          Paragraph ''<b>Cost Containment</b><br/>$1.6M+ total savings with 28.3% ROI on investments''
            ''MetricBox'',
          Spacer 1 6,
          Paragraph ''<b>Response Speed</b><br/>1-4 days faster service delivery in most disaster operations''
            ''MetricBox'',
          Spacer 1 6,
          Paragraph ''<b>Community Impact</b><br/>35.9% increase in volunteer engagement, 66.2% increase in homes made safer''
            ''MetricBox'',
          Spacer 1 6] \<and>
   (HexColor ''#CC0000'' \<in> set (canvas_colors (draw_page_number_professional now k n)) \<and>
    HexColor ''#CC0000'' \<in> set (canvas_colors (draw_page_number_simple 2 n)) \<and>
    canvas_colors (draw_page_number_real 2) = [Black] \<and>
    HexColor ''#CC0000'' \<in> set (canvas_colors (draw_page_number_fortune500 2 n)))"
  using cap_graphics_pattern [OF assms] professional_pdf_pattern [OF assms]
    create_cost_breakdown_data [of g] convert_to_images_pattern [OF assms]
    create_20_pattern [OF assms] create_roi_by_disaster_data [of g]
    cool_fixed_pattern [OF assms] create_3d_scatter_data [of g]
    cool_pattern [OF assms] create_funnel_pipeline_data [of g]
    fortune500_graphics_pattern [OF assms] create_cost_containment_donut_data [of g]
    small_scripts_ok [OF assms] main_create_fortune500_pdf_ok [OF assms]
    roi_table_data append_viz_list_data [of elements] append_metrics_data [of story]
    page_number_colors [of now k n]
  by blast

theorem scripts_follow_pattern_witness:
  "raises env_ok = (\<lambda>a. None) \<and>
   list_ex is_output (fst (main_create_cap_graphics env_ok)) \<and>
   Chart ''create_roi_by_disaster'' \<in> set (fst (main_convert_to_images env_ok)) \<and>
   snd (main_create_professional_pdf env_ok) = Inr () \<and>
   \<not> list_ex is_Chart (fst (main_create_real_cap_pdf env_ok)) \<and>
   list_ex is_output (fst (main_create_fortune500_pdf env_ok)) \<and>
   ARC_RED \<in> set (figure_colors (fst (create_funnel_pipeline rng_calm))) \<and>
   append_viz_list []
     = map (\<lambda>viz. Paragraph (bullet_prefix @ viz) ''BulletStyle'') viz_list"
proof -
  have h: "raises env_ok = (\<lambda>a. None)"
    by (simp add: env_ok_def)
  show ?thesis
    using h scripts_follow_pattern [OF h, of rng_calm "[]" "[]" "''September 2025''" 1 1]
    by simp
qed

end
